theory Spec2Isabelle
  imports Main "HOL-Library.Word" "HOL-Library.Signed_Division"
begin

unbundle bit_operations_syntax

section \<open>Wire structures (iec104\_types.h)\<close>

text \<open>
  \<^verbatim>\<open>struct iec_unit_id\<close>, the ASDU header. The bit-fields keep their widths:
  \<^verbatim>\<open>num : 7\<close>, \<^verbatim>\<open>sq : 1\<close>, \<^verbatim>\<open>cause : 6\<close>, \<^verbatim>\<open>pn : 1\<close>, \<^verbatim>\<open>t : 1\<close>.
\<close>

record iec_unit_id =
  asdu_type :: "8 word"
  asdu_num :: "7 word"
  asdu_sq :: bool
  asdu_cause :: "6 word"
  asdu_pn :: bool
  asdu_t :: bool
  asdu_oa :: "8 word"
  asdu_ca :: "16 word"

text \<open>
  \<^verbatim>\<open>struct iec_apdu\<close>: start, length, the two control fields, the ASDU header and the
  union of information objects. The union is kept as its \<^verbatim>\<open>dados\<close> member, the raw bytes
  behind the ASDU header.
\<close>

record iec_apdu =
  apdu_start :: "8 word"
  apdu_length :: "8 word"
  NS :: "16 word"
  NR :: "16 word"
  asduh :: iec_unit_id
  dados :: "8 word list"

text \<open>
  The struct is packed and sent as it lies in memory: multi-byte integers little-endian,
  bit-fields from the least significant bit.
\<close>

definition lo8 :: "16 word \<Rightarrow> 8 word" where
  "lo8 w = ucast w"

definition hi8 :: "16 word \<Rightarrow> 8 word" where
  "hi8 w = ucast (drop_bit 8 w)"

definition le16 :: "8 word \<Rightarrow> 8 word \<Rightarrow> 16 word" where
  "le16 b0 b1 = word_cat b1 b0"

definition flag :: "nat \<Rightarrow> bool \<Rightarrow> 8 word" where
  "flag n b = (if b then push_bit n 1 else 0)"

definition asduh_bytes :: "iec_unit_id \<Rightarrow> 8 word list" where
  "asduh_bytes h =
     [asdu_type h,
      ucast (asdu_num h) OR flag 7 (asdu_sq h),
      ucast (asdu_cause h) OR flag 6 (asdu_pn h) OR flag 7 (asdu_t h),
      asdu_oa h,
      lo8 (asdu_ca h),
      hi8 (asdu_ca h)]"

definition apdu_bytes :: "iec_apdu \<Rightarrow> 8 word list" where
  "apdu_bytes a =
     [apdu_start a, apdu_length a, lo8 (NS a), hi8 (NS a), lo8 (NR a), hi8 (NR a)]
     @ asduh_bytes (asduh a) @ dados a"

text \<open>
  A local \<^verbatim>\<open>iec_apdu\<close> before any assignment. The code leaves it uninitialised; the
  model starts it at zero with an empty union. The frames built below assign every byte
  they send, apart from the information object of \<^verbatim>\<open>sendCommand\<close>, which is an input
  of the model.
\<close>

definition unit_id_local :: iec_unit_id where
  "unit_id_local =
     \<lparr>asdu_type = 0, asdu_num = 0, asdu_sq = False, asdu_cause = 0, asdu_pn = False,
      asdu_t = False, asdu_oa = 0, asdu_ca = 0\<rparr>"

definition apdu_local :: iec_apdu where
  "apdu_local =
     \<lparr>apdu_start = 0, apdu_length = 0, NS = 0, NR = 0, asduh = unit_id_local, dados = []\<rparr>"

text \<open>
  The receive buffer read as an \<^verbatim>\<open>iec_apdu\<close> (\<^verbatim>\<open>packetReadyTCP\<close> reads the bytes into
  the struct). Bytes that were not received read as zero here; the parser does not look
  at the ASDU header of a six-byte frame.
\<close>

definition byte_at :: "8 word list \<Rightarrow> nat \<Rightarrow> 8 word" where
  "byte_at bs i = (if i < length bs then bs ! i else 0)"

definition unit_id_of_bytes :: "8 word list \<Rightarrow> iec_unit_id" where
  "unit_id_of_bytes bs =
     \<lparr>asdu_type = byte_at bs 6,
      asdu_num = ucast (byte_at bs 7),
      asdu_sq = bit (byte_at bs 7) 7,
      asdu_cause = ucast (byte_at bs 8),
      asdu_pn = bit (byte_at bs 8) 6,
      asdu_t = bit (byte_at bs 8) 7,
      asdu_oa = byte_at bs 9,
      asdu_ca = le16 (byte_at bs 10) (byte_at bs 11)\<rparr>"

definition apdu_of_bytes :: "8 word list \<Rightarrow> iec_apdu" where
  "apdu_of_bytes bs =
     \<lparr>apdu_start = byte_at bs 0,
      apdu_length = byte_at bs 1,
      NS = le16 (byte_at bs 2) (byte_at bs 3),
      NR = le16 (byte_at bs 4) (byte_at bs 5),
      asduh = unit_id_of_bytes bs,
      dados = drop 12 bs\<rparr>"

section \<open>Constants of the class header\<close>

text \<open>
  Modelled from the spec: the class header \<^verbatim>\<open>iec104_class.h\<close> is not among the sources.
  The start byte and the control fields of the U- and S-format frames are the ones the
  specification gives on the wire (\<^verbatim>\<open>68 04 07 00 00 00\<close> for STARTDT-act, \<^verbatim>\<open>0B\<close> for
  STARTDT-con, \<^verbatim>\<open>43\<close> for TESTFR-act, \<^verbatim>\<open>83\<close> for TESTFR-con, \<^verbatim>\<open>01\<close> for the S-format).
  The type identifiers and causes of transmission are the numbers under which the
  constructor of the class registers their names (\<^verbatim>\<open>mapTiStr\<close>, \<^verbatim>\<open>mapCauseStr\<close>).
\<close>

abbreviation (input) START :: "8 word" where "START \<equiv> 0x68"

abbreviation (input) STARTDTACT :: "16 word" where "STARTDTACT \<equiv> 0x07"
abbreviation (input) STARTDTCON :: "16 word" where "STARTDTCON \<equiv> 0x0B"
abbreviation (input) TESTFRACT :: "16 word" where "TESTFRACT \<equiv> 0x43"
abbreviation (input) TESTFRCON :: "16 word" where "TESTFRCON \<equiv> 0x83"
abbreviation (input) SUPERVISORY :: "16 word" where "SUPERVISORY \<equiv> 0x01"

abbreviation (input) ACTIVATION :: "6 word" where "ACTIVATION \<equiv> 6"
abbreviation (input) ACTCONFIRM :: "6 word" where "ACTCONFIRM \<equiv> 7"
abbreviation (input) ACTTERM :: "6 word" where "ACTTERM \<equiv> 10"

abbreviation (input) M_SP_NA_1 :: "8 word" where "M_SP_NA_1 \<equiv> 1"
abbreviation (input) M_DP_NA_1 :: "8 word" where "M_DP_NA_1 \<equiv> 3"
abbreviation (input) M_ST_NA_1 :: "8 word" where "M_ST_NA_1 \<equiv> 5"
abbreviation (input) M_BO_NA_1 :: "8 word" where "M_BO_NA_1 \<equiv> 7"
abbreviation (input) M_ME_NA_1 :: "8 word" where "M_ME_NA_1 \<equiv> 9"
abbreviation (input) M_ME_NB_1 :: "8 word" where "M_ME_NB_1 \<equiv> 11"
abbreviation (input) M_ME_NC_1 :: "8 word" where "M_ME_NC_1 \<equiv> 13"
abbreviation (input) M_IT_NA_1 :: "8 word" where "M_IT_NA_1 \<equiv> 15"
abbreviation (input) M_PS_NA_1 :: "8 word" where "M_PS_NA_1 \<equiv> 20"
abbreviation (input) M_ME_ND_1 :: "8 word" where "M_ME_ND_1 \<equiv> 21"
abbreviation (input) M_SP_TB_1 :: "8 word" where "M_SP_TB_1 \<equiv> 30"
abbreviation (input) M_DP_TB_1 :: "8 word" where "M_DP_TB_1 \<equiv> 31"
abbreviation (input) M_ST_TB_1 :: "8 word" where "M_ST_TB_1 \<equiv> 32"
abbreviation (input) M_BO_TB_1 :: "8 word" where "M_BO_TB_1 \<equiv> 33"
abbreviation (input) M_ME_TD_1 :: "8 word" where "M_ME_TD_1 \<equiv> 34"
abbreviation (input) M_ME_TE_1 :: "8 word" where "M_ME_TE_1 \<equiv> 35"
abbreviation (input) M_ME_TF_1 :: "8 word" where "M_ME_TF_1 \<equiv> 36"
abbreviation (input) M_IT_TB_1 :: "8 word" where "M_IT_TB_1 \<equiv> 37"
abbreviation (input) M_EP_TD_1 :: "8 word" where "M_EP_TD_1 \<equiv> 38"
abbreviation (input) M_EP_TE_1 :: "8 word" where "M_EP_TE_1 \<equiv> 39"
abbreviation (input) M_EP_TF_1 :: "8 word" where "M_EP_TF_1 \<equiv> 40"
abbreviation (input) C_SC_NA_1 :: "8 word" where "C_SC_NA_1 \<equiv> 45"
abbreviation (input) C_DC_NA_1 :: "8 word" where "C_DC_NA_1 \<equiv> 46"
abbreviation (input) C_RC_NA_1 :: "8 word" where "C_RC_NA_1 \<equiv> 47"
abbreviation (input) C_SE_NA_1 :: "8 word" where "C_SE_NA_1 \<equiv> 48"
abbreviation (input) C_SE_NB_1 :: "8 word" where "C_SE_NB_1 \<equiv> 49"
abbreviation (input) C_SE_NC_1 :: "8 word" where "C_SE_NC_1 \<equiv> 50"
abbreviation (input) C_SC_TA_1 :: "8 word" where "C_SC_TA_1 \<equiv> 58"
abbreviation (input) C_DC_TA_1 :: "8 word" where "C_DC_TA_1 \<equiv> 59"
abbreviation (input) C_RC_TA_1 :: "8 word" where "C_RC_TA_1 \<equiv> 60"
abbreviation (input) C_SE_TA_1 :: "8 word" where "C_SE_TA_1 \<equiv> 61"
abbreviation (input) C_SE_TB_1 :: "8 word" where "C_SE_TB_1 \<equiv> 62"
abbreviation (input) C_SE_TC_1 :: "8 word" where "C_SE_TC_1 \<equiv> 63"
abbreviation (input) M_EI_NA_1 :: "8 word" where "M_EI_NA_1 \<equiv> 70"
abbreviation (input) INTERROGATION :: "8 word" where "INTERROGATION \<equiv> 100"
abbreviation (input) C_CI_NA_1 :: "8 word" where "C_CI_NA_1 \<equiv> 101"
abbreviation (input) C_RD_NA_1 :: "8 word" where "C_RD_NA_1 \<equiv> 102"
abbreviation (input) C_CS_NA_1 :: "8 word" where "C_CS_NA_1 \<equiv> 103"
abbreviation (input) C_RP_NA_1 :: "8 word" where "C_RP_NA_1 \<equiv> 105"
abbreviation (input) C_TS_TA_1 :: "8 word" where "C_TS_TA_1 \<equiv> 107"
abbreviation (input) P_ME_NA_1 :: "8 word" where "P_ME_NA_1 \<equiv> 110"
abbreviation (input) P_ME_NB_1 :: "8 word" where "P_ME_NB_1 \<equiv> 111"
abbreviation (input) P_ME_NC_1 :: "8 word" where "P_ME_NC_1 \<equiv> 112"
abbreviation (input) P_AC_NA_1 :: "8 word" where "P_AC_NA_1 \<equiv> 113"

text \<open>
  The four timeout constants of the class header are not among the sources either and
  the specification calls them implementation-defined, so they are a parameter of every
  operation that reads one.
\<close>

record timeouts =
  t1_startdtact :: int
  t2_supervisory :: int
  t3_testfr :: int
  gi_retry_time :: int

section \<open>The protocol engine (class iec104\_class)\<close>

text \<open>
  What the engine hands to its host, in the order of the calls: the bytes of every
  \<^verbatim>\<open>sendTCP\<close>, every \<^verbatim>\<open>disconnectTCP\<close>, and the four indications. The decoding of the
  information objects into \<^verbatim>\<open>iec_obj\<close> records is not modelled: a data indication
  keeps the type identifier and the number of objects, a command response its type
  identifier and cause. The termination indication records the value \<^verbatim>\<open>GIObjectCnt\<close>
  has when the host is called. Log lines are left out.
\<close>

datatype event =
    SendTCP "8 word list"
  | DisconnectTCP
  | DataIndication "8 word" nat
  | CommandActRespIndication "8 word" "6 word"
  | InterrogationActConfIndication
  | InterrogationActTermIndication nat

text \<open>
  The members of the class that the operations below read or write. VS and VR are the
  16-bit counters of the specification, kept shifted left by one; the countdowns are
  \<^verbatim>\<open>int\<close>, idle when negative. \<^verbatim>\<open>GIObjectCnt\<close> is taken as an unbounded counter.
\<close>

record iec104 =
  connectedTCP :: bool
  TxOk :: bool
  VS :: "16 word"
  VR :: "16 word"
  tout_startdtact :: int
  tout_supervisory :: int
  tout_testfr :: int
  tout_gi :: int
  test_command_count :: "16 word"
  msg_supervisory :: bool
  seq_order_check :: bool
  masterAddress :: "8 word"
  slaveAddress :: "16 word"
  GIObjectCnt :: nat
  gi_period :: int
  trace :: "event list"

definition emit :: "event \<Rightarrow> iec104 \<Rightarrow> iec104" where
  "emit e st = st\<lparr>trace := trace st @ [e]\<rparr>"

text \<open>\<^verbatim>\<open>sendTCP(reinterpret_cast<char*>(&apdu), n)\<close>: the first \<open>n\<close> bytes of the struct.\<close>

definition sendTCP :: "iec_apdu \<Rightarrow> nat \<Rightarrow> iec104 \<Rightarrow> iec104" where
  "sendTCP a n st = emit (SendTCP (take n (apdu_bytes a))) st"

definition disconnectTCP :: "iec104 \<Rightarrow> iec104" where
  "disconnectTCP st = emit DisconnectTCP st"

text \<open>The frames handed to the transport so far.\<close>

fun sent :: "event list \<Rightarrow> 8 word list list" where
  "sent [] = []"
| "sent (SendTCP bs # es) = bs # sent es"
| "sent (e # es) = sent es"

definition sendStartDTACT :: "timeouts \<Rightarrow> iec104 \<Rightarrow> iec104" where
  "sendStartDTACT k st =
     (let apdu = apdu_local\<lparr>apdu_start := START, apdu_length := 4, NS := STARTDTACT, NR := 0\<rparr>;
          st1 = sendTCP apdu 6 st
      in st1\<lparr>tout_startdtact := t1_startdtact k\<rparr>)"

definition onConnectTCP :: "timeouts \<Rightarrow> iec104 \<Rightarrow> iec104" where
  "onConnectTCP k st =
     sendStartDTACT k
       (st\<lparr>connectedTCP := True, TxOk := False, VS := 0, VR := 0, test_command_count := 0\<rparr>)"

definition onDisconnectTCP :: "iec104 \<Rightarrow> iec104" where
  "onDisconnectTCP st =
     st\<lparr>connectedTCP := False, tout_startdtact := - 1, tout_supervisory := - 1,
        tout_gi := - 1, TxOk := False\<rparr>"

definition sendSupervisory :: "iec104 \<Rightarrow> iec104" where
  "sendSupervisory st =
     (let apdu = apdu_local\<lparr>apdu_start := START, apdu_length := 4, NS := SUPERVISORY, NR := VR st\<rparr>
      in sendTCP apdu 6 st)"

text \<open>
  \<^verbatim>\<open>solicitGI\<close> and \<^verbatim>\<open>solicitInterrogation\<close> build the same sixteen bytes; the last byte,
  the qualifier of interrogation, is \<^verbatim>\<open>0x14\<close> in the first and the argument \<^verbatim>\<open>group\<close> in
  the second.
\<close>

definition interrogation_apdu :: "iec104 \<Rightarrow> 8 word \<Rightarrow> iec_apdu" where
  "interrogation_apdu st q =
     apdu_local\<lparr>apdu_start := START, apdu_length := 0x0E, NS := VS st, NR := VR st,
       asduh := \<lparr>asdu_type = INTERROGATION, asdu_num = 1, asdu_sq = False,
                 asdu_cause = ACTIVATION, asdu_pn = False, asdu_t = False,
                 asdu_oa = masterAddress st, asdu_ca = slaveAddress st\<rparr>,
       dados := [0x00, 0x00, 0x00, q]\<rparr>"

definition solicitGI :: "timeouts \<Rightarrow> iec104 \<Rightarrow> iec104" where
  "solicitGI k st =
     (let st1 = sendTCP (interrogation_apdu st 0x14) 16 st;
          st2 = st1\<lparr>VS := VS st1 + 2\<rparr>
      in st2\<lparr>tout_gi := gi_retry_time k\<rparr>)"

definition solicitInterrogation :: "timeouts \<Rightarrow> 8 word \<Rightarrow> iec104 \<Rightarrow> iec104" where
  "solicitInterrogation k grp st =
     (let st1 = sendTCP (interrogation_apdu st grp) 16 st;
          st2 = st1\<lparr>VS := VS st1 + 2\<rparr>
      in st2\<lparr>tout_gi := gi_retry_time k\<rparr>)"

text \<open>
  The wall clock as \<^verbatim>\<open>localtime\<close> returns it, an input of the operations that read
  it, and the seven bytes of \<^verbatim>\<open>struct cp56time2a\<close> as \<^verbatim>\<open>confTestCommand\<close> fills them
  (there the month is \<^verbatim>\<open>tm_mon\<close> itself and the year \<^verbatim>\<open>tm_year % 100\<close>, C's
  truncating remainder).
\<close>

record tm =
  tm_sec :: int
  tm_min :: int
  tm_hour :: int
  tm_mday :: int
  tm_mon :: int
  tm_year :: int
  tm_wday :: int
  tm_isdst :: int

definition u8 :: "int \<Rightarrow> 8 word" where
  "u8 i = word_of_int i"

definition cp56_conf :: "tm \<Rightarrow> 8 word list" where
  "cp56_conf now =
     (let msec = (word_of_int (tm_sec now * 1000) :: 16 word)
      in [lo8 msec,
          hi8 msec,
          u8 (tm_min now) AND 0x3F,
          (u8 (tm_hour now) AND 0x1F) OR push_bit 7 (u8 (tm_isdst now) AND 1),
          (u8 (tm_mday now) AND 0x1F) OR push_bit 5 (u8 (tm_wday now) AND 7),
          u8 (tm_mon now) AND 0x0F,
          u8 (tm_year now smod 100) AND 0x7F])"

definition confTestCommand :: "tm \<Rightarrow> iec104 \<Rightarrow> iec104" where
  "confTestCommand now st =
     (let wapdu = apdu_local\<lparr>apdu_start := START, apdu_length := 22, NS := VS st, NR := VR st,
            asduh := \<lparr>asdu_type = C_TS_TA_1, asdu_num = 1, asdu_sq = False,
                      asdu_cause = ACTCONFIRM, asdu_pn = False, asdu_t = False,
                      asdu_oa = masterAddress st, asdu_ca = slaveAddress st\<rparr>,
            dados := [0, 0, 0, 0, 0] @ cp56_conf now\<rparr>;
          st1 = sendTCP wapdu (22 + 2) st
      in st1\<lparr>VS := VS st1 + 2\<rparr>)"

subsection \<open>onTimerSecond\<close>

text \<open>The four countdowns of \<^verbatim>\<open>onTimerSecond\<close>, in the order of the source.\<close>

definition tick_startdtact :: "timeouts \<Rightarrow> iec104 \<Rightarrow> iec104" where
  "tick_startdtact k st =
     (let st1 = (if tout_startdtact st > 0
                 then st\<lparr>tout_startdtact := tout_startdtact st - 1\<rparr> else st)
      in if tout_startdtact st1 = 0 then sendStartDTACT k st1 else st1)"

definition tick_gi :: "timeouts \<Rightarrow> iec104 \<Rightarrow> iec104" where
  "tick_gi k st =
     (if tout_gi st > 0
      then (let st1 = st\<lparr>tout_gi := tout_gi st - 1\<rparr>
            in if tout_gi st1 = 0 then solicitGI k st1 else st1)
      else st)"

definition tick_supervisory :: "iec104 \<Rightarrow> iec104" where
  "tick_supervisory st =
     (if msg_supervisory st
      then (let st1 = (if tout_supervisory st > 0
                       then st\<lparr>tout_supervisory := tout_supervisory st - 1\<rparr> else st);
                st2 = (if tout_supervisory st1 > 0
                       then st1\<lparr>tout_supervisory := tout_supervisory st1 - 1\<rparr> else st1)
            in if tout_supervisory st2 = 0
               then sendSupervisory (st2\<lparr>tout_supervisory := - 1\<rparr>)
               else st2)
      else st)"

definition tick_testfr :: "iec104 \<Rightarrow> iec104" where
  "tick_testfr st =
     (if connectedTCP st \<and> TxOk st
      then (if tout_testfr st > 0
            then (let st1 = st\<lparr>tout_testfr := tout_testfr st - 1\<rparr>
                  in if tout_testfr st1 = 0
                     then sendTCP (apdu_local\<lparr>apdu_start := START, apdu_length := 4,
                                     NS := TESTFRACT, NR := 0\<rparr>) 6 st1
                     else st1)
            else st)
      else st)"

definition onTimerSecond :: "timeouts \<Rightarrow> iec104 \<Rightarrow> iec104" where
  "onTimerSecond k st =
     (let st1 = (if connectedTCP st
                 then tick_supervisory (tick_gi k (tick_startdtact k st))
                 else st)
      in tick_testfr st1)"

subsection \<open>parseAPDU\<close>

text \<open>
  The six-byte frames. Only three control fields change anything; STOPDT-act,
  STOPDT-con, TESTFR-con, the S-format and unknown control fields are logged and
  nothing else.
\<close>

definition parse_control :: "iec_apdu \<Rightarrow> iec104 \<Rightarrow> iec104" where
  "parse_control papdu st =
     (if NS papdu = STARTDTACT
      then sendTCP (apdu_local\<lparr>apdu_start := START, apdu_length := 4,
                      NS := STARTDTCON, NR := 0\<rparr>) 6 st
      else if NS papdu = TESTFRACT
      then sendTCP (apdu_local\<lparr>apdu_start := START, apdu_length := 4,
                      NS := TESTFRCON, NR := 0\<rparr>) 6 st
      else if NS papdu = STARTDTCON
      then st\<lparr>tout_startdtact := - 1, TxOk := True, tout_gi := 15\<rparr>
      else st)"

text \<open>
  The \<^verbatim>\<open>switch\<close> over the type identifier. The monitoring cases, in the order of the
  source, all do the same to the engine: count the objects when the cause is an
  interrogation response, then \<^verbatim>\<open>dataIndication\<close>. The command cases all end in
  \<^verbatim>\<open>commandActRespIndication\<close>.
\<close>

definition monitoring_types :: "8 word list" where
  "monitoring_types =
     [M_SP_NA_1, M_DP_NA_1, M_ST_NA_1, M_ME_NA_1, M_ME_ND_1, M_ME_NB_1, M_ME_NC_1,
      M_SP_TB_1, M_DP_TB_1, M_ST_TB_1, M_PS_NA_1, M_BO_NA_1, M_BO_TB_1, M_ME_TD_1,
      M_ME_TE_1, M_ME_TF_1, M_IT_NA_1, M_IT_TB_1, M_EP_TD_1, M_EP_TE_1, M_EP_TF_1]"

definition response_types :: "8 word list" where
  "response_types =
     [C_SC_NA_1, C_DC_NA_1, C_RC_NA_1, C_SC_TA_1, C_DC_TA_1, C_RC_TA_1, C_SE_NA_1,
      C_SE_TA_1, C_SE_NB_1, C_SE_TB_1, C_SE_NC_1, C_SE_TC_1, C_RD_NA_1,
      P_ME_NA_1, P_ME_NB_1, P_ME_NC_1, P_AC_NA_1]"

definition logged_types :: "8 word list" where
  "logged_types = [M_EI_NA_1, C_CI_NA_1, C_CS_NA_1]"

definition has_decoder :: "8 word \<Rightarrow> bool" where
  "has_decoder ty \<longleftrightarrow>
     ty \<in> set monitoring_types \<or> ty \<in> set response_types
     \<or> ty \<in> set logged_types \<or> ty = INTERROGATION \<or> ty = C_TS_TA_1"

definition dispatch_asdu :: "tm \<Rightarrow> iec_apdu \<Rightarrow> iec104 \<Rightarrow> iec104" where
  "dispatch_asdu now papdu st =
     (let h = asduh papdu; ty = asdu_type h
      in if ty \<in> set monitoring_types
         then (let st1 = (if asdu_cause h \<ge> 20 \<and> asdu_cause h \<le> 36
                          then st\<lparr>GIObjectCnt := GIObjectCnt st + unat (asdu_num h)\<rparr>
                          else st)
               in emit (DataIndication ty (unat (asdu_num h))) st1)
         else if ty \<in> set response_types
         then emit (CommandActRespIndication ty (asdu_cause h)) st
         else if ty = INTERROGATION
         then (let st1 = st\<lparr>tout_gi := gi_period st\<rparr>
               in if asdu_cause h = ACTCONFIRM
                  then emit InterrogationActConfIndication (st1\<lparr>GIObjectCnt := 0\<rparr>)
                  else if asdu_cause h = ACTTERM
                  then emit (InterrogationActTermIndication (GIObjectCnt st1)) st1
                  else st1)
         else if ty = C_TS_TA_1
         then (if asdu_cause h = ACTIVATION then confTestCommand now st else st)
         else st)"

text \<open>The tail of the data branch: t3 and the supervisory acknowledgement.\<close>

definition account_ack :: "timeouts \<Rightarrow> iec104 \<Rightarrow> iec104" where
  "account_ack k st =
     (let st0 = st\<lparr>tout_testfr := t3_testfr k\<rparr>
      in if msg_supervisory st0
         then (let st1 = (if tout_supervisory st0 < 0
                          then st0\<lparr>tout_supervisory := t2_supervisory k\<rparr> else st0);
                   st2 = (if tout_supervisory st1 > 0
                          then st1\<lparr>tout_supervisory := tout_supervisory st1 - 1\<rparr> else st1)
               in if tout_supervisory st2 = 0
                  then sendSupervisory (st2\<lparr>tout_supervisory := - 1\<rparr>)
                  else st2)
         else sendSupervisory st0)"

text \<open>
  \<^verbatim>\<open>parseAPDU(papdu, sz, accountandrespond)\<close>. A frame of six bytes is a control
  message, every other size a data message. \<^verbatim>\<open>VR_NEW\<close> is the send field of the frame
  with bit 0 cleared.
\<close>

definition VR_NEW :: "iec_apdu \<Rightarrow> 16 word" where
  "VR_NEW papdu = NS papdu AND 0xFFFE"

definition parseAPDU :: "timeouts \<Rightarrow> tm \<Rightarrow> iec_apdu \<Rightarrow> int \<Rightarrow> bool \<Rightarrow> iec104 \<Rightarrow> iec104" where
  "parseAPDU k now papdu sz accountandrespond st =
     (if apdu_start papdu \<noteq> START then st
      else if sz = 6
      then (if accountandrespond then parse_control papdu st else st)
      else if accountandrespond \<and> VR_NEW papdu \<noteq> VR st \<and> VR_NEW papdu \<noteq> 2
              \<and> seq_order_check st
      then disconnectTCP st
      else (let st1 = (if accountandrespond then st\<lparr>VR := VR_NEW papdu + 2\<rparr> else st);
                st2 = dispatch_asdu now papdu st1
            in if accountandrespond then account_ack k st2 else st2))"

text \<open>
  \<^verbatim>\<open>packetReadyTCP\<close> hands every frame it has read to \<^verbatim>\<open>parseAPDU(&apdu, len + 2)\<close>,
  with the flag at its default, which only makes sense as true. \<open>receive\<close> is that call
  for one frame, \<open>receive_all\<close> for a stream of frames. The resynchronisation loop that
  cuts the frames out of the byte stream, and the hook \<^verbatim>\<open>userprocAPDU\<close> it calls before
  \<^verbatim>\<open>parseAPDU\<close> (declared in the absent class header), are not modelled.
\<close>

definition receive :: "timeouts \<Rightarrow> tm \<Rightarrow> iec_apdu \<Rightarrow> iec104 \<Rightarrow> iec104" where
  "receive k now papdu st = parseAPDU k now papdu (uint (apdu_length papdu) + 2) True st"

fun receive_all :: "timeouts \<Rightarrow> tm \<Rightarrow> iec_apdu list \<Rightarrow> iec104 \<Rightarrow> iec104" where
  "receive_all k now [] st = st"
| "receive_all k now (p # ps) st = receive_all k now ps (receive k now p st)"

subsection \<open>sendCommand\<close>

text \<open>
  The fields of \<^verbatim>\<open>iec_obj\<close> that \<^verbatim>\<open>sendCommand\<close> writes or that decide its branch. The
  other fields (address, states, qualifiers, value, time tag) only flow into the
  information object of the frame.
\<close>

record iec_obj =
  obj_type :: "8 word"
  obj_cause :: "8 word"
  obj_ca :: "16 word"

text \<open>
  The cases of the \<^verbatim>\<open>switch\<close> in the order of the source, each with the \<^verbatim>\<open>sizeof\<close> of
  the union member its \<^verbatim>\<open>length\<close> is computed from (the structs are packed; the reset
  process command takes the size of \<^verbatim>\<open>asdu107\<close>, as the source does).
\<close>

definition command_cases :: "(8 word \<times> nat) list" where
  "command_cases =
     [(C_SC_NA_1, 4), (C_DC_NA_1, 4), (C_RC_NA_1, 4),
      (C_SC_TA_1, 11), (C_DC_TA_1, 11), (C_RC_TA_1, 11),
      (C_SE_NA_1, 6), (C_SE_TA_1, 13), (C_SE_NB_1, 6), (C_SE_TB_1, 13),
      (C_SE_NC_1, 8), (C_SE_TC_1, 15),
      (C_CS_NA_1, 10), (C_RP_NA_1, 12), (C_TS_TA_1, 12),
      (P_ME_NA_1, 6), (P_ME_NB_1, 6), (P_ME_NC_1, 8), (P_AC_NA_1, 4),
      (C_CI_NA_1, 4), (C_RD_NA_1, 3)]"

text \<open>
  \<^verbatim>\<open>sendCommand(obj)\<close> returns the result, the caller's object as the call leaves it,
  and the engine. The argument \<open>info\<close> stands for the bytes of the union member after the
  assignments of the case: they depend on the fields of the object that are not
  modelled, on float conversions and on the wall clock, and the reset process command
  leaves some of them unassigned.
\<close>

definition sendCommand :: "8 word list \<Rightarrow> iec_obj \<Rightarrow> iec104 \<Rightarrow> bool \<times> iec_obj \<times> iec104" where
  "sendCommand info obj st =
     (let obj1 = obj\<lparr>obj_cause := ucast ACTIVATION\<rparr>;
          obj2 = (if obj_ca obj1 = 0 then obj1\<lparr>obj_ca := slaveAddress st\<rparr> else obj1)
      in case map_of command_cases (obj_type obj2) of
           None \<Rightarrow> (False, obj2, st)
         | Some n \<Rightarrow>
             (let apducmd = apdu_local\<lparr>apdu_start := START,
                    apdu_length := of_nat (2 + 2 + 6 + n),
                    NS := VS st, NR := VR st,
                    asduh := \<lparr>asdu_type = obj_type obj2, asdu_num = 1, asdu_sq = False,
                              asdu_cause = ucast (obj_cause obj2), asdu_pn = False,
                              asdu_t = False, asdu_oa = masterAddress st,
                              asdu_ca = obj_ca obj2\<rparr>,
                    dados := info\<rparr>;
                  st1 = (if obj_type obj2 = C_TS_TA_1
                         then st\<lparr>test_command_count := test_command_count st + 1\<rparr>
                         else st);
                  st2 = sendTCP apducmd (unat (apdu_length apducmd) + 1 + 1) st1
              in (True, obj2, st2\<lparr>VS := VS st2 + 2\<rparr>)))"

text \<open>
  A host issuing one command after the other; the information object of each command
  comes with it.
\<close>

fun sendCommands :: "(8 word list \<times> iec_obj) list \<Rightarrow> iec104 \<Rightarrow> iec104" where
  "sendCommands [] st = st"
| "sendCommands ((info, obj) # cs) st = sendCommands cs (snd (snd (sendCommand info obj st)))"

text \<open>The send field of a frame on the wire, and the sequence number a control field carries.\<close>

definition frame_NS :: "8 word list \<Rightarrow> 16 word" where
  "frame_NS bs = le16 (byte_at bs 2) (byte_at bs 3)"

definition seq_no :: "16 word \<Rightarrow> nat" where
  "seq_no w = unat (drop_bit 1 w)"

definition supported_type :: "8 word \<Rightarrow> bool" where
  "supported_type ty \<longleftrightarrow> ty \<in> set (map fst command_cases)"

subsection \<open>Construction and configuration\<close>

text \<open>
  The state the constructor leaves. It does not assign \<^verbatim>\<open>test_command_count\<close>, which
  \<^verbatim>\<open>onConnectTCP\<close> sets before any use; the model starts it at zero.
\<close>

definition iec104_class :: iec104 where
  "iec104_class =
     \<lparr>connectedTCP = False, TxOk = False, VS = 0, VR = 0,
      tout_startdtact = - 1, tout_supervisory = - 1, tout_testfr = - 1, tout_gi = - 1,
      test_command_count = 0, msg_supervisory = True, seq_order_check = True,
      masterAddress = 0, slaveAddress = 0, GIObjectCnt = 0, gi_period = 5 * 60 + 30,
      trace = []\<rparr>"

definition setSecondaryAddress :: "int \<Rightarrow> iec104 \<Rightarrow> iec104" where
  "setSecondaryAddress addr st = st\<lparr>slaveAddress := word_of_int addr\<rparr>"

definition disableSequenceOrderCheck :: "iec104 \<Rightarrow> iec104" where
  "disableSequenceOrderCheck st = st\<lparr>seq_order_check := False\<rparr>"

section \<open>Observations and example values\<close>

text \<open>How often the engine has closed the connection, and the indications it has given.\<close>

fun closes :: "event list \<Rightarrow> nat" where
  "closes [] = 0"
| "closes (DisconnectTCP # es) = Suc (closes es)"
| "closes (e # es) = closes es"

fun is_upcall :: "event \<Rightarrow> bool" where
  "is_upcall (SendTCP bs) = False"
| "is_upcall DisconnectTCP = False"
| "is_upcall e = True"

definition upcalls :: "event list \<Rightarrow> event list" where
  "upcalls es = filter is_upcall es"

text \<open>
  A stream of data frames whose send numbers are \<open>n\<close>, \<open>n + 1\<close>, \<dots> (the send field
  holds the number shifted left by one, bit 0 clear).
\<close>

fun numbered :: "nat \<Rightarrow> iec_apdu list \<Rightarrow> bool" where
  "numbered n [] = True"
| "numbered n (p # ps) =
     (apdu_start p = START \<and> apdu_length p \<noteq> 4 \<and> NS p = 2 * of_nat n \<and> numbered (Suc n) ps)"

text \<open>
  A stream of data frames each of which passes the sequence check when the receive
  counter is \<open>vr\<close> at its start.
\<close>

fun in_sequence :: "16 word \<Rightarrow> iec_apdu list \<Rightarrow> bool" where
  "in_sequence vr [] = True"
| "in_sequence vr (p # ps) =
     (apdu_start p = START \<and> apdu_length p \<noteq> 4 \<and> (VR_NEW p = vr \<or> VR_NEW p = 2)
      \<and> in_sequence (VR_NEW p + 2) ps)"

text \<open>The objects of a stream of ASDUs that are interrogation responses (cause 20 to 36).\<close>

definition gi_objects_of :: "iec_apdu \<Rightarrow> nat" where
  "gi_objects_of p =
     (if asdu_cause (asduh p) \<ge> 20 \<and> asdu_cause (asduh p) \<le> 36
      then unat (asdu_num (asduh p)) else 0)"

definition gi_objects :: "iec_apdu list \<Rightarrow> nat" where
  "gi_objects ps = sum_list (map gi_objects_of ps)"

definition data_indication_of :: "iec_apdu \<Rightarrow> event" where
  "data_indication_of p = DataIndication (asdu_type (asduh p)) (unat (asdu_num (asduh p)))"

text \<open>The S-format frame that acknowledges up to \<open>vr\<close>, as it goes on the wire.\<close>

definition s_frame :: "16 word \<Rightarrow> 8 word list" where
  "s_frame vr = [0x68, 0x04, 0x01, 0x00, lo8 vr, hi8 vr]"

text \<open>Timeouts as the specification suggests them, and a wall clock, for the examples.\<close>

definition example_timeouts :: timeouts where
  "example_timeouts =
     \<lparr>t1_startdtact = 30, t2_supervisory = 10, t3_testfr = 20, gi_retry_time = 45\<rparr>"

definition example_clock :: tm where
  "example_clock =
     \<lparr>tm_sec = 30, tm_min = 15, tm_hour = 12, tm_mday = 3, tm_mon = 10, tm_year = 126,
      tm_wday = 2, tm_isdst = 0\<rparr>"

text \<open>
  Example frames: a data frame with send field \<open>ns\<close> that carries an ASDU of the given
  type, object count and cause for station 1, and the control frames received from the
  transport.
\<close>

definition data_frame :: "16 word \<Rightarrow> 8 word \<Rightarrow> 7 word \<Rightarrow> 6 word \<Rightarrow> iec_apdu" where
  "data_frame ns ty n c =
     \<lparr>apdu_start = START, apdu_length = 0x0E, NS = ns, NR = 0,
      asduh = \<lparr>asdu_type = ty, asdu_num = n, asdu_sq = False, asdu_cause = c,
                asdu_pn = False, asdu_t = False, asdu_oa = 0, asdu_ca = 1\<rparr>,
      dados = [0, 0, 0, 0]\<rparr>"

definition startdt_con :: iec_apdu where
  "startdt_con = apdu_of_bytes [0x68, 0x04, 0x0B, 0x00, 0x00, 0x00]"

definition s_frame_in :: iec_apdu where
  "s_frame_in = apdu_of_bytes [0x68, 0x04, 0x01, 0x00, 0x00, 0x00]"

text \<open>The frames handed to the transport between two states of the engine.\<close>

definition sent_since :: "iec104 \<Rightarrow> iec104 \<Rightarrow> 8 word list list" where
  "sent_since st st' = drop (length (sent (trace st))) (sent (trace st'))"

text \<open>Example objects for \<^verbatim>\<open>sendCommand\<close>: a command of the given type for station \<open>ca\<close>.\<close>

definition command_obj :: "8 word \<Rightarrow> 16 word \<Rightarrow> iec_obj" where
  "command_obj ty ca = \<lparr>obj_type = ty, obj_cause = 0, obj_ca = ca\<rparr>"

text \<open>
  An example session: the constructor, the connect, STARTDT-con from the slave and one
  spontaneous single-point data frame with send number 0; then the same session four
  ticks later.
\<close>

definition example_session :: iec104 where
  "example_session =
     receive_all example_timeouts example_clock [startdt_con, data_frame 0 M_SP_NA_1 1 3]
       (onConnectTCP example_timeouts iec104_class)"

definition example_session_later :: iec104 where
  "example_session_later =
     onTimerSecond example_timeouts (onTimerSecond example_timeouts
       (onTimerSecond example_timeouts (onTimerSecond example_timeouts example_session)))"

definition example_session_quiet :: iec104 where
  "example_session_quiet = (onTimerSecond example_timeouts ^^ 15) example_session_later"

section \<open>Basic facts\<close>

lemma closes_append: "closes (xs @ ys) = closes xs + closes ys"
  by (induction xs rule: closes.induct) simp_all

lemma sent_append: "sent (xs @ ys) = sent xs @ sent ys"
  by (induction xs rule: sent.induct) simp_all

lemma upcalls_append: "upcalls (xs @ ys) = upcalls xs @ upcalls ys"
  by (simp add: upcalls_def)

lemma mask_even: "(2 * x :: 16 word) AND 0xFFFE = 2 * x"
proof -
  have m: "(0xFFFE :: 16 word) = NOT 1" by simp
  have "(2 * x :: 16 word) AND NOT 1 = 2 * x"
    by (rule bit_eqI) (auto simp add: bit_and_iff bit_not_iff bit_1_iff bit_double_iff)
  then show ?thesis by (simp only: m)
qed

lemma VR_NEW_double: "NS p = 2 * x \<Longrightarrow> VR_NEW p = 2 * x"
  by (simp add: VR_NEW_def mask_even)

lemma half_mod: "(x mod 65536) div 2 = (x div 2) mod (32768 :: nat)"
  using drop_bit_take_bit [of 1 16 x] by (simp add: take_bit_eq_mod drop_bit_eq_div)

lemma seq_no_div: "seq_no x = unat x div 2"
  unfolding seq_no_def by (simp add: drop_bit_eq_div unat_div)

lemma seq_no_add: "seq_no (w + 2 * of_nat n) = (seq_no w + n) mod 2 ^ 15"
proof -
  have "unat (w + 2 * of_nat n :: 16 word) = (unat w + 2 * n) mod 65536"
    by (simp add: unat_word_ariths unat_of_nat mod_mult_right_eq mod_add_right_eq)
  moreover have "(unat w + 2 * n) div 2 = unat w div 2 + n"
    by simp
  ultimately show ?thesis
    by (simp add: seq_no_div half_mod add.commute)
qed

lemma data_size:
  fixes w :: "8 word"
  assumes "w \<noteq> 4"
  shows "uint w + 2 \<noteq> 6"
proof
  assume "uint w + 2 = 6"
  then have "uint w = uint (4 :: 8 word)" by simp
  then have "w = 4" by (simp only: word_uint_eq_iff [symmetric])
  with assms show False by simp
qed

subsection \<open>What the parts of parseAPDU leave alone\<close>

lemma VR_dispatch: "VR (dispatch_asdu now p st) = VR st"
  by (simp add: dispatch_asdu_def confTestCommand_def sendTCP_def emit_def Let_def)

lemma closes_dispatch: "closes (trace (dispatch_asdu now p st)) = closes (trace st)"
  by (simp add: dispatch_asdu_def confTestCommand_def sendTCP_def emit_def Let_def closes_append)

lemma VR_account_ack: "VR (account_ack k st) = VR st"
  by (simp add: account_ack_def sendSupervisory_def sendTCP_def emit_def Let_def)

lemma closes_account_ack: "closes (trace (account_ack k st)) = closes (trace st)"
  by (simp add: account_ack_def sendSupervisory_def sendTCP_def emit_def Let_def closes_append)

lemma parseAPDU_reject:
  assumes "apdu_start p = START" "sz \<noteq> 6" "VR_NEW p \<noteq> VR st" "VR_NEW p \<noteq> 2"
    and "seq_order_check st"
  shows "parseAPDU k now p sz True st = disconnectTCP st"
  using assms by (simp add: parseAPDU_def)

lemma parseAPDU_accept:
  assumes "apdu_start p = START" "sz \<noteq> 6"
    and "VR_NEW p = VR st \<or> VR_NEW p = 2 \<or> \<not> seq_order_check st"
  shows "parseAPDU k now p sz True st
         = account_ack k (dispatch_asdu now p (st\<lparr>VR := VR_NEW p + 2\<rparr>))"
  using assms by (auto simp add: parseAPDU_def Let_def)

lemma receive_accept:
  assumes "apdu_start p = START" "apdu_length p \<noteq> 4"
    and "VR_NEW p = VR st \<or> VR_NEW p = 2 \<or> \<not> seq_order_check st"
  shows "receive k now p st = account_ack k (dispatch_asdu now p (st\<lparr>VR := VR_NEW p + 2\<rparr>))"
  unfolding receive_def using assms(1) data_size [OF assms(2)] assms(3)
  by (rule parseAPDU_accept)

lemma receive_all_append:
  "receive_all k now (xs @ ys) st = receive_all k now ys (receive_all k now xs st)"
  by (induction xs arbitrary: st) simp_all

lemma receive_all_numbered:
  assumes "numbered n ps" and "VR st = 2 * of_nat n"
  shows "VR (receive_all k now ps st) = 2 * of_nat (n + length ps)
         \<and> closes (trace (receive_all k now ps st)) = closes (trace st)"
  using assms
proof (induction ps arbitrary: st n)
  case Nil
  then show ?case by simp
next
  case (Cons p ps)
  from Cons.prems(1) have p: "apdu_start p = START" "apdu_length p \<noteq> 4"
    and ns: "NS p = 2 * of_nat n" and rest: "numbered (Suc n) ps"
    by simp_all
  have new: "VR_NEW p = VR st"
    using ns Cons.prems(2) by (simp add: VR_NEW_double)
  let ?st = "receive k now p st"
  have eq: "?st = account_ack k (dispatch_asdu now p (st\<lparr>VR := VR_NEW p + 2\<rparr>))"
    using p new by (simp add: receive_accept)
  have vr: "VR ?st = 2 * of_nat (Suc n)"
    by (simp add: eq VR_account_ack VR_dispatch new Cons.prems(2))
  have cl: "closes (trace ?st) = closes (trace st)"
    by (simp add: eq closes_account_ack closes_dispatch)
  from Cons.IH [OF rest vr] cl show ?case by simp
qed

section \<open>The claims\<close>

text \<open>
  C2. After \<^verbatim>\<open>onConnectTCP\<close> the engine is TCP-connected with data transfer not yet
  enabled, VS, VR and the test command counter are zero, t1 is armed and exactly the
  STARTDT-act frame \<^verbatim>\<open>68 04 07 00 00 00\<close> has been handed to the transport. Receiving the
  STARTDT-con frame \<^verbatim>\<open>68 04 0B 00 00 00\<close>, in whatever state, sets TxOk, cancels t1 and
  arms the interrogation timer to 15 ticks.
\<close>

theorem C2_connect_handshake:
  "(let st1 = onConnectTCP k st
    in connectedTCP st1 \<and> \<not> TxOk st1 \<and> VS st1 = 0 \<and> VR st1 = 0
       \<and> test_command_count st1 = 0 \<and> tout_startdtact st1 = t1_startdtact k
       \<and> trace st1 = trace st @ [SendTCP [0x68, 0x04, 0x07, 0x00, 0x00, 0x00]])
   \<and> (let st2 = receive k now (apdu_of_bytes [0x68, 0x04, 0x0B, 0x00, 0x00, 0x00]) st'
       in TxOk st2 \<and> tout_startdtact st2 = - 1 \<and> tout_gi st2 = 15)"
  by (simp add: onConnectTCP_def sendStartDTACT_def sendTCP_def emit_def apdu_bytes_def
      apdu_local_def lo8_def hi8_def receive_def parseAPDU_def apdu_of_bytes_def byte_at_def
      parse_control_def le16_def word_cat_eq Let_def)

text \<open>
  C8, as the code has it. On a TCP disconnect the engine is disconnected, TxOk is false
  and t1, t2 and the interrogation timer are idle. VS and VR keep their values; they are
  reset by the next \<^verbatim>\<open>onConnectTCP\<close>.
\<close>

theorem C8_disconnect:
  "(let st' = onDisconnectTCP st
    in \<not> connectedTCP st' \<and> \<not> TxOk st'
       \<and> tout_startdtact st' = - 1 \<and> tout_supervisory st' = - 1 \<and> tout_gi st' = - 1
       \<and> VS st' = VS st \<and> VR st' = VR st)
   \<and> VS (onConnectTCP k (onDisconnectTCP st)) = 0
   \<and> VR (onConnectTCP k (onDisconnectTCP st)) = 0"
  by (simp add: onDisconnectTCP_def onConnectTCP_def sendStartDTACT_def sendTCP_def emit_def
      Let_def)

text \<open>
  The claim as written fails: after a connect, STARTDT-con and one data frame, a
  disconnect leaves t3 armed at 20 and VR at 2.
\<close>

theorem C8_counterexample:
  "tout_testfr (onDisconnectTCP (receive_all example_timeouts example_clock
       [startdt_con, data_frame 0 M_SP_NA_1 1 3]
       (onConnectTCP example_timeouts iec104_class))) = 20
   \<and> VR (onDisconnectTCP (receive_all example_timeouts example_clock
       [startdt_con, data_frame 0 M_SP_NA_1 1 3]
       (onConnectTCP example_timeouts iec104_class))) = 2"
  by (simp add: onDisconnectTCP_def onConnectTCP_def sendStartDTACT_def sendTCP_def emit_def
      receive_def parseAPDU_def startdt_con_def apdu_of_bytes_def byte_at_def le16_def
      word_cat_eq parse_control_def data_frame_def VR_NEW_def iec104_class_def
      dispatch_asdu_def monitoring_types_def account_ack_def example_timeouts_def Let_def)

text \<open>
  C1, as the code has it. For a data frame with send number N the engine expects N = VR
  and also takes N = 1, whatever VR is and at any time, not only for the first frame
  after the connect. On any other mismatch with the sequence order check enabled it
  calls \<^verbatim>\<open>disconnectTCP\<close> and does nothing else. A frame that is in sequence, or carries
  N = 1, or arrives with the check disabled, closes nothing and leaves VR at N + 1
  (in the shifted form, the send field with bit 0 cleared plus two). A stream of data
  frames with the send numbers 0, 1, \<dots>, k, received from VR = 0 with the check enabled,
  closes nothing and leaves VR at k + 1 modulo \<open>2\<^sup>1\<^sup>5\<close>.
\<close>

theorem C1_sequence_discipline:
  "(apdu_start p1 = START \<and> sz1 \<noteq> 6 \<and> VR_NEW p1 \<noteq> VR st1 \<and> VR_NEW p1 \<noteq> 2
      \<and> seq_order_check st1
      \<longrightarrow> parseAPDU k now p1 sz1 True st1 = disconnectTCP st1)
   \<and> (apdu_start p2 = START \<and> sz2 \<noteq> 6
      \<and> (VR_NEW p2 = VR st2 \<or> VR_NEW p2 = 2 \<or> \<not> seq_order_check st2)
      \<longrightarrow> VR (parseAPDU k now p2 sz2 True st2) = VR_NEW p2 + 2
          \<and> closes (trace (parseAPDU k now p2 sz2 True st2)) = closes (trace st2))
   \<and> (VR st3 = 0 \<and> seq_order_check st3 \<and> numbered 0 ps
      \<longrightarrow> closes (trace (receive_all k now ps st3)) = closes (trace st3)
          \<and> VR (receive_all k now ps st3) = 2 * of_nat (length ps)
          \<and> seq_no (VR (receive_all k now ps st3)) = length ps mod 2 ^ 15)"
proof (intro conjI impI)
  assume "apdu_start p1 = START \<and> sz1 \<noteq> 6 \<and> VR_NEW p1 \<noteq> VR st1 \<and> VR_NEW p1 \<noteq> 2
      \<and> seq_order_check st1"
  then show "parseAPDU k now p1 sz1 True st1 = disconnectTCP st1"
    by (simp add: parseAPDU_reject)
next
  assume a: "apdu_start p2 = START \<and> sz2 \<noteq> 6
      \<and> (VR_NEW p2 = VR st2 \<or> VR_NEW p2 = 2 \<or> \<not> seq_order_check st2)"
  then have eq: "parseAPDU k now p2 sz2 True st2
      = account_ack k (dispatch_asdu now p2 (st2\<lparr>VR := VR_NEW p2 + 2\<rparr>))"
    by (intro parseAPDU_accept) simp_all
  show "VR (parseAPDU k now p2 sz2 True st2) = VR_NEW p2 + 2"
    by (simp add: eq VR_account_ack VR_dispatch)
  show "closes (trace (parseAPDU k now p2 sz2 True st2)) = closes (trace st2)"
    by (simp add: eq closes_account_ack closes_dispatch)
next
  assume a: "VR st3 = 0 \<and> seq_order_check st3 \<and> numbered 0 ps"
  then have "numbered 0 ps" and "VR st3 = 2 * of_nat 0" by simp_all
  from receive_all_numbered [OF this, of k now]
  have vr: "VR (receive_all k now ps st3) = 2 * of_nat (length ps)"
    and cl: "closes (trace (receive_all k now ps st3)) = closes (trace st3)"
    by simp_all
  show "closes (trace (receive_all k now ps st3)) = closes (trace st3)" by (rule cl)
  show "VR (receive_all k now ps st3) = 2 * of_nat (length ps)" by (rule vr)
  show "seq_no (VR (receive_all k now ps st3)) = length ps mod 2 ^ 15"
    using seq_no_add [of 0 "length ps"] by (simp add: vr seq_no_div)
qed

text \<open>
  The three parts at concrete inputs. With VR at 5 and the check enabled a frame with
  send number 7 closes the connection; with the check disabled the same frame moves VR
  to 8; the frames numbered 0, 1, 2 after a connect leave VR at 3.
\<close>

theorem C1_sequence_discipline_witness:
  "parseAPDU example_timeouts example_clock (data_frame 14 M_EI_NA_1 1 4) 16 True
       (iec104_class\<lparr>VR := 10\<rparr>)
     = disconnectTCP (iec104_class\<lparr>VR := 10\<rparr>)
   \<and> VR (parseAPDU example_timeouts example_clock (data_frame 14 M_EI_NA_1 1 4) 16 True
         (disableSequenceOrderCheck (iec104_class\<lparr>VR := 10\<rparr>))) = 16
   \<and> closes (trace (parseAPDU example_timeouts example_clock (data_frame 14 M_EI_NA_1 1 4) 16
         True (disableSequenceOrderCheck (iec104_class\<lparr>VR := 10\<rparr>)))) = 0
   \<and> closes (trace (receive_all example_timeouts example_clock
         [data_frame 0 M_EI_NA_1 1 4, data_frame 2 M_SP_NA_1 1 3, data_frame 4 M_SP_NA_1 1 3]
         (onConnectTCP example_timeouts iec104_class))) = 0
   \<and> VR (receive_all example_timeouts example_clock
         [data_frame 0 M_EI_NA_1 1 4, data_frame 2 M_SP_NA_1 1 3, data_frame 4 M_SP_NA_1 1 3]
         (onConnectTCP example_timeouts iec104_class)) = 6
   \<and> seq_no (VR (receive_all example_timeouts example_clock
         [data_frame 0 M_EI_NA_1 1 4, data_frame 2 M_SP_NA_1 1 3, data_frame 4 M_SP_NA_1 1 3]
         (onConnectTCP example_timeouts iec104_class))) = 3"
proof -
  have h1: "apdu_start (data_frame 14 M_EI_NA_1 1 4) = START \<and> (16 :: int) \<noteq> 6
      \<and> VR_NEW (data_frame 14 M_EI_NA_1 1 4) \<noteq> VR (iec104_class\<lparr>VR := 10\<rparr>)
      \<and> VR_NEW (data_frame 14 M_EI_NA_1 1 4) \<noteq> 2
      \<and> seq_order_check (iec104_class\<lparr>VR := 10\<rparr>)"
    by (simp add: data_frame_def VR_NEW_def iec104_class_def)
  have h2: "apdu_start (data_frame 14 M_EI_NA_1 1 4) = START \<and> (16 :: int) \<noteq> 6
      \<and> (VR_NEW (data_frame 14 M_EI_NA_1 1 4)
            = VR (disableSequenceOrderCheck (iec104_class\<lparr>VR := 10\<rparr>))
          \<or> VR_NEW (data_frame 14 M_EI_NA_1 1 4) = 2
          \<or> \<not> seq_order_check (disableSequenceOrderCheck (iec104_class\<lparr>VR := 10\<rparr>)))"
    by (simp add: data_frame_def disableSequenceOrderCheck_def)
  have h3: "VR (onConnectTCP example_timeouts iec104_class) = 0
      \<and> seq_order_check (onConnectTCP example_timeouts iec104_class)
      \<and> numbered 0 [data_frame 0 M_EI_NA_1 1 4, data_frame 2 M_SP_NA_1 1 3,
                      data_frame 4 M_SP_NA_1 1 3]"
    by (simp add: onConnectTCP_def sendStartDTACT_def sendTCP_def emit_def iec104_class_def
        data_frame_def)
  have v: "VR_NEW (data_frame 14 M_EI_NA_1 1 4) + 2 = 16"
    by (simp add: data_frame_def VR_NEW_def)
  have c0: "closes (trace (disableSequenceOrderCheck (iec104_class\<lparr>VR := 10\<rparr>))) = 0"
    "closes (trace (onConnectTCP example_timeouts iec104_class)) = 0"
    by (simp_all add: disableSequenceOrderCheck_def iec104_class_def onConnectTCP_def
        sendStartDTACT_def sendTCP_def emit_def)
  note t = C1_sequence_discipline [of "data_frame 14 M_EI_NA_1 1 4" 16 "iec104_class\<lparr>VR := 10\<rparr>"
      example_timeouts example_clock "data_frame 14 M_EI_NA_1 1 4" 16
      "disableSequenceOrderCheck (iec104_class\<lparr>VR := 10\<rparr>)"
      "onConnectTCP example_timeouts iec104_class"
      "[data_frame 0 M_EI_NA_1 1 4, data_frame 2 M_SP_NA_1 1 3, data_frame 4 M_SP_NA_1 1 3]"]
  from t [THEN conjunct1] h1
  have c1: "parseAPDU example_timeouts example_clock (data_frame 14 M_EI_NA_1 1 4) 16 True
       (iec104_class\<lparr>VR := 10\<rparr>) = disconnectTCP (iec104_class\<lparr>VR := 10\<rparr>)"
    by (rule mp)
  note c2 = mp [OF t [THEN conjunct2, THEN conjunct1] h2]
  note c3 = mp [OF t [THEN conjunct2, THEN conjunct2] h3]
  show ?thesis
    using c1 c2 c3 by (simp add: v c0 seq_no_div)
qed

text \<open>
  The claim as written fails where it confines the tolerance to the first frame after
  the connect: after the frames numbered 0 and 1 the engine is at VR = 2 with the check
  enabled; a third frame that again carries the number 1 is not the first and does not
  match, and the engine takes it without closing the connection, stepping VR back to 2.
\<close>

theorem C1_counterexample:
  "seq_order_check (receive_all example_timeouts example_clock
       [data_frame 0 M_SP_NA_1 1 3, data_frame 2 M_SP_NA_1 1 3]
       (onConnectTCP example_timeouts iec104_class))
   \<and> seq_no (VR (receive_all example_timeouts example_clock
       [data_frame 0 M_SP_NA_1 1 3, data_frame 2 M_SP_NA_1 1 3]
       (onConnectTCP example_timeouts iec104_class))) = 2
   \<and> seq_no (NS (data_frame 2 M_SP_NA_1 1 3)) = 1
   \<and> closes (trace (receive_all example_timeouts example_clock
       [data_frame 0 M_SP_NA_1 1 3, data_frame 2 M_SP_NA_1 1 3, data_frame 2 M_SP_NA_1 1 3]
       (onConnectTCP example_timeouts iec104_class))) = 0
   \<and> seq_no (VR (receive_all example_timeouts example_clock
       [data_frame 0 M_SP_NA_1 1 3, data_frame 2 M_SP_NA_1 1 3, data_frame 2 M_SP_NA_1 1 3]
       (onConnectTCP example_timeouts iec104_class))) = 2"
  by (simp add: onConnectTCP_def sendStartDTACT_def sendTCP_def emit_def
      receive_def parseAPDU_def data_frame_def VR_NEW_def iec104_class_def
      dispatch_asdu_def monitoring_types_def account_ack_def example_timeouts_def Let_def
      seq_no_div sendSupervisory_def)

subsection \<open>Frames on the wire\<close>

lemma le16_lo8_hi8: "le16 (lo8 w) (hi8 w) = w"
  unfolding le16_def lo8_def hi8_def
  by (rule bit_eqI) (auto simp add: bit_word_cat_iff bit_ucast_iff bit_drop_bit_eq)

lemma interrogation_bytes:
  "apdu_bytes (interrogation_apdu st q)
   = [0x68, 0x0E, lo8 (VS st), hi8 (VS st), lo8 (VR st), hi8 (VR st),
      100, 1, 6, masterAddress st, lo8 (slaveAddress st), hi8 (slaveAddress st),
      0, 0, 0, q]"
  by (simp add: apdu_bytes_def interrogation_apdu_def asduh_bytes_def flag_def apdu_local_def)

text \<open>
  C9, as the code has it. \<^verbatim>\<open>solicitInterrogation(group)\<close> hands the transport a frame of
  sixteen bytes with type 100, one object, cause 6 (activation), the address 0 and, as
  the qualifier of interrogation in its last byte, the argument \<^verbatim>\<open>group\<close> itself; the
  engine adds nothing to it, so a host that wants the qualifier \<open>20 + G\<close> of group \<open>G\<close>
  passes \<open>20 + G\<close>. \<^verbatim>\<open>solicitGI\<close> sends the same frame with the qualifier \<^verbatim>\<open>0x14\<close>.
\<close>

theorem C9_interrogation_qualifier:
  "trace (solicitInterrogation k g st)
     = trace st @ [SendTCP [0x68, 0x0E, lo8 (VS st), hi8 (VS st), lo8 (VR st), hi8 (VR st),
                            100, 1, 6, masterAddress st,
                            lo8 (slaveAddress st), hi8 (slaveAddress st), 0, 0, 0, g]]
   \<and> trace (solicitGI k st)
     = trace st @ [SendTCP [0x68, 0x0E, lo8 (VS st), hi8 (VS st), lo8 (VR st), hi8 (VR st),
                            100, 1, 6, masterAddress st,
                            lo8 (slaveAddress st), hi8 (slaveAddress st), 0, 0, 0, 0x14]]"
  by (simp add: solicitInterrogation_def solicitGI_def sendTCP_def emit_def
      interrogation_bytes Let_def)

text \<open>
  The claim as written fails: asked for group 1, the engine sends the qualifier
  \<^verbatim>\<open>0x01\<close>, not \<^verbatim>\<open>0x15\<close>.
\<close>

theorem C9_counterexample:
  "trace (solicitInterrogation example_timeouts 1 iec104_class)
   = [SendTCP [0x68, 0x0E, 0, 0, 0, 0, 100, 1, 6, 0, 0, 0, 0, 0, 0, 0x01]]"
  by (simp add: solicitInterrogation_def sendTCP_def emit_def interrogation_bytes
      iec104_class_def lo8_def hi8_def Let_def)

subsection \<open>sendCommand\<close>

lemma unsupported_None: "\<not> supported_type ty \<Longrightarrow> map_of command_cases ty = None"
  by (simp add: supported_type_def map_of_eq_None_iff)

lemma supported_Some: "supported_type ty \<Longrightarrow> \<exists>n. map_of command_cases ty = Some n"
  using unsupported_None [of ty]
  by (cases "map_of command_cases ty")
     (auto simp add: supported_type_def map_of_eq_None_iff)

lemma command_size:
  "map_of command_cases ty = Some n \<Longrightarrow> unat (of_nat (2 + 2 + 6 + n) :: 8 word) = 10 + n"
  by (auto simp add: command_cases_def split: if_splits)

text \<open>
  C7, as the code has it. For an object whose type is none of the cases of the
  \<^verbatim>\<open>switch\<close>, \<^verbatim>\<open>sendCommand\<close> returns false and leaves the engine as it is: no frame, VS
  unchanged. The caller's object does not stay as it was: before the \<^verbatim>\<open>switch\<close> its
  cause is set to activation and a common address of zero is replaced by the
  configured slave address.
\<close>

theorem C7_unsupported_command:
  "\<not> supported_type (obj_type obj) \<Longrightarrow>
   sendCommand info obj st
   = (False,
      obj\<lparr>obj_cause := 6, obj_ca := (if obj_ca obj = 0 then slaveAddress st else obj_ca obj)\<rparr>,
      st)"
  by (simp add: sendCommand_def unsupported_None Let_def)

theorem C7_unsupported_command_witness:
  "sendCommand [] (command_obj 51 0) (setSecondaryAddress 5 iec104_class)
   = (False, \<lparr>obj_type = 51, obj_cause = 6, obj_ca = 5\<rparr>, setSecondaryAddress 5 iec104_class)"
proof -
  have "\<not> supported_type (obj_type (command_obj 51 0))"
    by (simp add: supported_type_def command_cases_def command_obj_def)
  from C7_unsupported_command [OF this, of "[]" "setSecondaryAddress 5 iec104_class"]
  show ?thesis
    by (simp add: command_obj_def setSecondaryAddress_def iec104_class_def)
qed

text \<open>
  The claim as written fails for the caller's object: a call with the unsupported type
  100 returns false and sends nothing, but the object comes back with cause 6 and common
  address 5 instead of 0 and 0.
\<close>

theorem C7_counterexample:
  "fst (sendCommand [0, 0, 0, 20] (command_obj 100 0) (setSecondaryAddress 5 iec104_class))
     = False
   \<and> fst (snd (sendCommand [0, 0, 0, 20] (command_obj 100 0)
               (setSecondaryAddress 5 iec104_class)))
     = \<lparr>obj_type = 100, obj_cause = 6, obj_ca = 5\<rparr>
   \<and> fst (snd (sendCommand [0, 0, 0, 20] (command_obj 100 0)
               (setSecondaryAddress 5 iec104_class)))
     \<noteq> command_obj 100 0"
  by (simp add: sendCommand_def command_cases_def command_obj_def setSecondaryAddress_def
      iec104_class_def Let_def)

lemma sendCommand_supported:
  assumes "supported_type (obj_type obj)"
  shows "fst (sendCommand info obj st) = True"
    and "VS (snd (snd (sendCommand info obj st))) = VS st + 2"
    and "\<exists>f. trace (snd (snd (sendCommand info obj st))) = trace st @ [SendTCP f]
             \<and> frame_NS f = VS st"
proof -
  from supported_Some [OF assms] obtain n
    where n: "map_of command_cases (obj_type obj) = Some n" by blast
  have len: "unat (of_nat (2 + 2 + 6 + n) :: 8 word) = 10 + n"
    using n by (rule command_size)
  show "fst (sendCommand info obj st) = True"
    using n by (simp add: sendCommand_def Let_def)
  show "VS (snd (snd (sendCommand info obj st))) = VS st + 2"
    using n by (simp add: sendCommand_def sendTCP_def emit_def Let_def)
  show "\<exists>f. trace (snd (snd (sendCommand info obj st))) = trace st @ [SendTCP f]
             \<and> frame_NS f = VS st"
    using n len
    by (simp add: sendCommand_def sendTCP_def emit_def Let_def apdu_bytes_def frame_NS_def
        byte_at_def le16_lo8_hi8)
qed

lemma stamps_Suc:
  "map (\<lambda>i. v + 2 * of_nat i) [0..<Suc n]
   = (v :: 16 word) # map (\<lambda>i. (v + 2) + 2 * of_nat i) [0..<n]"
proof -
  have "[0..<Suc n] = 0 # map Suc [0..<n]"
    by (simp add: upt_conv_Cons map_Suc_upt del: upt_Suc)
  then show ?thesis
    by (simp add: comp_def algebra_simps del: upt_Suc)
qed

lemma sendCommands_VS:
  assumes "list_all (\<lambda>c. supported_type (obj_type (snd c))) cs"
  shows "VS (sendCommands cs st) = VS st + 2 * of_nat (length cs)"
  using assms
proof (induction cs arbitrary: st)
  case Nil
  show ?case by simp
next
  case (Cons c cs)
  obtain info obj where c: "c = (info, obj)" by (cases c)
  from Cons.prems have sup: "supported_type (obj_type obj)"
    and rest: "list_all (\<lambda>c. supported_type (obj_type (snd c))) cs"
    by (simp_all add: c)
  let ?st = "snd (snd (sendCommand info obj st))"
  have vs: "VS ?st = VS st + 2" by (rule sendCommand_supported(2) [OF sup])
  from Cons.IH [OF rest, of ?st] vs show ?case
    by (simp add: c algebra_simps)
qed

lemma sendCommands_stamps:
  assumes "list_all (\<lambda>c. supported_type (obj_type (snd c))) cs"
  shows "\<exists>new. sent (trace (sendCommands cs st)) = sent (trace st) @ new
           \<and> map frame_NS new = map (\<lambda>i. VS st + 2 * of_nat i) [0..<length cs]"
  using assms
proof (induction cs arbitrary: st)
  case Nil
  show ?case by simp
next
  case (Cons c cs)
  obtain info obj where c: "c = (info, obj)" by (cases c)
  from Cons.prems have sup: "supported_type (obj_type obj)"
    and rest: "list_all (\<lambda>c. supported_type (obj_type (snd c))) cs"
    by (simp_all add: c)
  let ?st = "snd (snd (sendCommand info obj st))"
  from sendCommand_supported(3) [OF sup, of info st] obtain f
    where f: "trace ?st = trace st @ [SendTCP f]" "frame_NS f = VS st" by blast
  have vs: "VS ?st = VS st + 2" by (rule sendCommand_supported(2) [OF sup])
  from Cons.IH [OF rest, of ?st] obtain new
    where new: "sent (trace (sendCommands cs ?st)) = sent (trace ?st) @ new"
      "map frame_NS new = map (\<lambda>i. VS ?st + 2 * of_nat i) [0..<length cs]" by blast
  have "sent (trace (sendCommands (c # cs) st)) = sent (trace st) @ (f # new)"
    using new(1) f(1) by (simp add: c sent_append)
  moreover have "map frame_NS (f # new)
      = map (\<lambda>i. VS st + 2 * of_nat i) [0..<length (c # cs)]"
    using new(2) f(2) vs by (simp add: stamps_Suc del: upt_Suc)
  ultimately show ?case by blast
qed

lemma sent_since_append:
  "sent (trace st') = sent (trace st) @ new \<Longrightarrow> sent_since st st' = new"
  by (simp add: sent_since_def)

text \<open>
  C3. A run of \<^verbatim>\<open>sendCommand\<close> calls, all with supported types, hands the transport one
  frame per call, in the order of the calls; the send field of the i-th frame is the VS
  the run started with plus \<open>2 * i\<close>, that is the sequence number \<open>v + i\<close> modulo
  \<open>2\<^sup>1\<^sup>5\<close>, and afterwards VS has advanced by two per call.
\<close>

theorem C3_send_numbers:
  "list_all (\<lambda>c. supported_type (obj_type (snd c))) cs \<Longrightarrow>
   sent (trace (sendCommands cs st)) = sent (trace st) @ sent_since st (sendCommands cs st)
   \<and> map frame_NS (sent_since st (sendCommands cs st))
       = map (\<lambda>i. VS st + 2 * of_nat i) [0..<length cs]
   \<and> map (\<lambda>f. seq_no (frame_NS f)) (sent_since st (sendCommands cs st))
       = map (\<lambda>i. (seq_no (VS st) + i) mod 2 ^ 15) [0..<length cs]
   \<and> VS (sendCommands cs st) = VS st + 2 * of_nat (length cs)"
proof -
  assume sup: "list_all (\<lambda>c. supported_type (obj_type (snd c))) cs"
  from sendCommands_stamps [OF sup, of st] obtain new
    where new: "sent (trace (sendCommands cs st)) = sent (trace st) @ new"
      "map frame_NS new = map (\<lambda>i. VS st + 2 * of_nat i) [0..<length cs]" by blast
  have since: "sent_since st (sendCommands cs st) = new"
    using new(1) by (rule sent_since_append)
  have "map (\<lambda>f. seq_no (frame_NS f)) new = map seq_no (map frame_NS new)"
    by simp
  also have "\<dots> = map (\<lambda>i. (seq_no (VS st) + i) mod 2 ^ 15) [0..<length cs]"
    by (simp only: new(2) map_map comp_def seq_no_add)
  finally have nums: "map (\<lambda>f. seq_no (frame_NS f)) new
      = map (\<lambda>i. (seq_no (VS st) + i) mod 2 ^ 15) [0..<length cs]" .
  show ?thesis
    using new nums sendCommands_VS [OF sup, of st] by (simp only: since simp_thms)
qed

text \<open>
  Three commands (single command, test command with time tag, read) issued when VS
  holds the last sequence number: the frames carry the numbers 32767, 0 and 1.
\<close>

theorem C3_send_numbers_witness:
  "map frame_NS (sent_since (iec104_class\<lparr>VS := 0xFFFE\<rparr>)
       (sendCommands [([42, 0, 0, 1], command_obj C_SC_NA_1 1),
                      ([0, 0, 0, 0, 0, 0, 0, 0, 0, 0, 0, 0], command_obj C_TS_TA_1 1),
                      ([7, 0, 0], command_obj C_RD_NA_1 1)]
          (iec104_class\<lparr>VS := 0xFFFE\<rparr>)))
     = [0xFFFE, 0, 2]
   \<and> map (\<lambda>f. seq_no (frame_NS f)) (sent_since (iec104_class\<lparr>VS := 0xFFFE\<rparr>)
       (sendCommands [([42, 0, 0, 1], command_obj C_SC_NA_1 1),
                      ([0, 0, 0, 0, 0, 0, 0, 0, 0, 0, 0, 0], command_obj C_TS_TA_1 1),
                      ([7, 0, 0], command_obj C_RD_NA_1 1)]
          (iec104_class\<lparr>VS := 0xFFFE\<rparr>)))
     = [32767, 0, 1]
   \<and> VS (sendCommands [([42, 0, 0, 1], command_obj C_SC_NA_1 1),
                      ([0, 0, 0, 0, 0, 0, 0, 0, 0, 0, 0, 0], command_obj C_TS_TA_1 1),
                      ([7, 0, 0], command_obj C_RD_NA_1 1)]
          (iec104_class\<lparr>VS := 0xFFFE\<rparr>)) = 4"
proof -
  have sup: "list_all (\<lambda>c. supported_type (obj_type (snd c)))
      [([42, 0, 0, 1], command_obj C_SC_NA_1 1),
       ([0, 0, 0, 0, 0, 0, 0, 0, 0, 0, 0, 0], command_obj C_TS_TA_1 1),
       ([7, 0, 0], command_obj C_RD_NA_1 1)]"
    by (simp add: supported_type_def command_cases_def command_obj_def)
  have up: "[0..<3] = [0, 1, 2]" by (simp add: upt_rec)
  have s: "seq_no 0xFFFE = 32767" by (simp add: seq_no_div)
  from C3_send_numbers [OF sup, of "iec104_class\<lparr>VS := 0xFFFE\<rparr>"]
  show ?thesis
    by (simp add: up s)
qed

subsection \<open>The example session\<close>

lemmas engine_defs =
  onConnectTCP_def sendStartDTACT_def sendTCP_def emit_def receive_def parseAPDU_def
  parse_control_def dispatch_asdu_def account_ack_def sendSupervisory_def VR_NEW_def
  monitoring_types_def response_types_def apdu_bytes_def asduh_bytes_def flag_def
  apdu_local_def unit_id_local_def lo8_def hi8_def le16_def word_cat_eq byte_at_def
  apdu_of_bytes_def unit_id_of_bytes_def onTimerSecond_def tick_startdtact_def tick_gi_def
  tick_supervisory_def tick_testfr_def solicitGI_def interrogation_apdu_def
  example_timeouts_def iec104_class_def data_frame_def startdt_con_def Let_def

lemma example_session_eq:
  "example_session =
     \<lparr>connectedTCP = True, TxOk = True, VS = 0, VR = 2, tout_startdtact = - 1,
      tout_supervisory = 9, tout_testfr = 20, tout_gi = 15,
      test_command_count = 0, msg_supervisory = True, seq_order_check = True,
      masterAddress = 0, slaveAddress = 0, GIObjectCnt = 0, gi_period = 330,
      trace = [SendTCP [0x68, 4, 7, 0, 0, 0], DataIndication 1 1]\<rparr>"
  by (simp add: example_session_def engine_defs)

lemma example_session_later_eq:
  "example_session_later =
     \<lparr>connectedTCP = True, TxOk = True, VS = 0, VR = 2, tout_startdtact = - 1,
      tout_supervisory = 1, tout_testfr = 16, tout_gi = 11,
      test_command_count = 0, msg_supervisory = True, seq_order_check = True,
      masterAddress = 0, slaveAddress = 0, GIObjectCnt = 0, gi_period = 330,
      trace = [SendTCP [0x68, 4, 7, 0, 0, 0], DataIndication 1 1]\<rparr>"
  by (simp add: example_session_later_def example_session_eq engine_defs)

lemma funpow_15:
  "(f ^^ 15) x = f (f (f (f (f (f (f (f (f (f (f (f (f (f (f x))))))))))))))"
  by (simp add: eval_nat_numeral)

lemma example_session_quiet_eq:
  "example_session_quiet =
     \<lparr>connectedTCP = True, TxOk = True, VS = 2, VR = 2, tout_startdtact = - 1,
      tout_supervisory = - 1, tout_testfr = 1, tout_gi = 41,
      test_command_count = 0, msg_supervisory = True, seq_order_check = True,
      masterAddress = 0, slaveAddress = 0, GIObjectCnt = 0, gi_period = 330,
      trace = [SendTCP [0x68, 4, 7, 0, 0, 0], DataIndication 1 1,
               SendTCP [0x68, 4, 1, 0, 2, 0],
               SendTCP [0x68, 14, 0, 0, 2, 0, 100, 1, 6, 0, 0, 0, 0, 0, 0, 20]]\<rparr>"
  by (simp add: example_session_quiet_def funpow_15 example_session_later_eq engine_defs)

subsection \<open>The countdowns of onTimerSecond\<close>

lemma tick_startdtact_keeps:
  "msg_supervisory (tick_startdtact k st) = msg_supervisory st"
  "tout_supervisory (tick_startdtact k st) = tout_supervisory st"
  "VR (tick_startdtact k st) = VR st"
  "connectedTCP (tick_startdtact k st) = connectedTCP st"
  "TxOk (tick_startdtact k st) = TxOk st"
  "tout_testfr (tick_startdtact k st) = tout_testfr st"
  by (simp_all add: tick_startdtact_def sendStartDTACT_def sendTCP_def emit_def Let_def)

lemma tick_gi_keeps:
  "msg_supervisory (tick_gi k st) = msg_supervisory st"
  "tout_supervisory (tick_gi k st) = tout_supervisory st"
  "VR (tick_gi k st) = VR st"
  "connectedTCP (tick_gi k st) = connectedTCP st"
  "TxOk (tick_gi k st) = TxOk st"
  "tout_testfr (tick_gi k st) = tout_testfr st"
  by (simp_all add: tick_gi_def solicitGI_def sendTCP_def emit_def Let_def)

lemma tick_supervisory_keeps:
  "connectedTCP (tick_supervisory st) = connectedTCP st"
  "TxOk (tick_supervisory st) = TxOk st"
  "tout_testfr (tick_supervisory st) = tout_testfr st"
  by (simp_all add: tick_supervisory_def sendSupervisory_def sendTCP_def emit_def Let_def)

lemma tick_testfr_keeps:
  "tout_supervisory (tick_testfr st) = tout_supervisory st"
  by (simp add: tick_testfr_def sendTCP_def emit_def Let_def)

lemma s_frame_bytes:
  "take 6 (apdu_bytes (apdu_local\<lparr>apdu_start := START, apdu_length := 4,
                          NS := SUPERVISORY, NR := vr\<rparr>)) = s_frame vr"
  by (simp add: apdu_bytes_def s_frame_def lo8_def hi8_def)

lemma sendSupervisory_eq: "sendSupervisory st = emit (SendTCP (s_frame (VR st))) st"
  by (simp add: sendSupervisory_def sendTCP_def s_frame_bytes)

lemma tick_supervisory_armed:
  assumes "msg_supervisory st" "0 < tout_supervisory st"
  shows "tick_supervisory st
         = (if 2 < tout_supervisory st
            then st\<lparr>tout_supervisory := tout_supervisory st - 2\<rparr>
            else emit (SendTCP (s_frame (VR st))) (st\<lparr>tout_supervisory := - 1\<rparr>))"
  using assms by (auto simp add: tick_supervisory_def sendSupervisory_eq Let_def)

text \<open>
  C5. On a tick while connected with supervisory messaging enabled, an armed t2
  countdown goes through two decrements, each guarded by the countdown being positive.
  A countdown above 2 is left two lower and nothing is sent for it; a countdown of 2 or
  1 reaches zero, is set to \<open>-1\<close>, and the S-format frame with the current VR is handed
  to the transport. The tick runs t1 and the interrogation timer before and t3 after.
\<close>

theorem C5_supervisory_tick:
  "connectedTCP st \<and> msg_supervisory st \<and> 0 < tout_supervisory st \<Longrightarrow>
   (let s1 = tick_gi k (tick_startdtact k st)
    in onTimerSecond k st = tick_testfr (tick_supervisory s1)
       \<and> tout_supervisory (onTimerSecond k st)
           = (if 2 < tout_supervisory st then tout_supervisory st - 2 else - 1)
       \<and> trace (tick_supervisory s1)
           = (if 2 < tout_supervisory st then trace s1
              else trace s1 @ [SendTCP [0x68, 0x04, 0x01, 0x00, lo8 (VR st), hi8 (VR st)]]))"
proof -
  assume a: "connectedTCP st \<and> msg_supervisory st \<and> 0 < tout_supervisory st"
  let ?s1 = "tick_gi k (tick_startdtact k st)"
  have m: "msg_supervisory ?s1" and t: "tout_supervisory ?s1 = tout_supervisory st"
    and vr: "VR ?s1 = VR st"
    using a by (simp_all add: tick_gi_keeps tick_startdtact_keeps)
  have eq: "onTimerSecond k st = tick_testfr (tick_supervisory ?s1)"
    using a by (simp add: onTimerSecond_def)
  have sup: "tick_supervisory ?s1
         = (if 2 < tout_supervisory st
            then ?s1\<lparr>tout_supervisory := tout_supervisory st - 2\<rparr>
            else emit (SendTCP (s_frame (VR st))) (?s1\<lparr>tout_supervisory := - 1\<rparr>))"
    using tick_supervisory_armed [of ?s1] m t vr a by simp
  have "tout_supervisory (onTimerSecond k st)
           = (if 2 < tout_supervisory st then tout_supervisory st - 2 else - 1)"
    by (simp add: eq tick_testfr_keeps sup emit_def)
  moreover have "trace (tick_supervisory ?s1)
           = (if 2 < tout_supervisory st then trace ?s1
              else trace ?s1 @ [SendTCP [0x68, 0x04, 0x01, 0x00, lo8 (VR st), hi8 (VR st)]])"
    by (simp add: sup emit_def s_frame_def)
  ultimately show ?thesis
    using eq by (simp add: Let_def)
qed

text \<open>
  The example session has t2 at 9: the tick leaves it at 7. Four ticks later t2 is at
  1: the tick disarms it and sends the S-format frame with VR = 2.
\<close>

theorem C5_supervisory_tick_witness:
  "tout_supervisory (onTimerSecond example_timeouts example_session) = 7
   \<and> tout_supervisory (onTimerSecond example_timeouts example_session_later) = - 1
   \<and> trace (tick_supervisory
         (tick_gi example_timeouts (tick_startdtact example_timeouts example_session_later)))
       = trace (tick_gi example_timeouts
                 (tick_startdtact example_timeouts example_session_later))
         @ [SendTCP [0x68, 0x04, 0x01, 0x00, 0x02, 0x00]]"
proof -
  have h1: "connectedTCP example_session \<and> msg_supervisory example_session
      \<and> 0 < tout_supervisory example_session"
    by (simp add: example_session_eq)
  have h2: "connectedTCP example_session_later \<and> msg_supervisory example_session_later
      \<and> 0 < tout_supervisory example_session_later"
    by (simp add: example_session_later_eq)
  have v: "tout_supervisory example_session = 9" "tout_supervisory example_session_later = 1"
    "lo8 (VR example_session_later) = 2" "hi8 (VR example_session_later) = 0"
    by (simp_all add: example_session_eq example_session_later_eq lo8_def hi8_def)
  note t1 = C5_supervisory_tick [OF h1, of example_timeouts, unfolded Let_def]
  note t2 = C5_supervisory_tick [OF h2, of example_timeouts, unfolded Let_def]
  have c1: "tout_supervisory (onTimerSecond example_timeouts example_session) = 7"
    using t1 [THEN conjunct2, THEN conjunct1] by (simp add: v)
  have c2: "tout_supervisory (onTimerSecond example_timeouts example_session_later) = - 1"
    using t2 [THEN conjunct2, THEN conjunct1] by (simp add: v)
  have c3: "trace (tick_supervisory
         (tick_gi example_timeouts (tick_startdtact example_timeouts example_session_later)))
       = trace (tick_gi example_timeouts
                 (tick_startdtact example_timeouts example_session_later))
         @ [SendTCP [0x68, 0x04, 0x01, 0x00, 0x02, 0x00]]"
    using t2 [THEN conjunct2, THEN conjunct2] by (simp add: v)
  show ?thesis
    by (intro conjI c1 c2 c3)
qed

subsection \<open>The test frame timer\<close>

lemma tout_testfr_dispatch: "tout_testfr (dispatch_asdu now p st) = tout_testfr st"
  by (simp add: dispatch_asdu_def confTestCommand_def sendTCP_def emit_def Let_def)

lemma tout_testfr_account_ack: "tout_testfr (account_ack k st) = t3_testfr k"
  by (simp add: account_ack_def sendSupervisory_def sendTCP_def emit_def Let_def)

lemma tout_testfr_control: "tout_testfr (parseAPDU k now p 6 acc st) = tout_testfr st"
  by (simp add: parseAPDU_def parse_control_def sendTCP_def emit_def)

lemma testfr_bytes:
  "take 6 (apdu_bytes (apdu_local\<lparr>apdu_start := START, apdu_length := 4,
                          NS := TESTFRACT, NR := 0\<rparr>)) = [0x68, 0x04, 0x43, 0x00, 0x00, 0x00]"
  by (simp add: apdu_bytes_def lo8_def hi8_def)

lemma tick_testfr_expiry:
  assumes "connectedTCP st" "TxOk st" "tout_testfr st = 1"
  shows "tick_testfr st
         = emit (SendTCP [0x68, 0x04, 0x43, 0x00, 0x00, 0x00]) (st\<lparr>tout_testfr := 0\<rparr>)"
  using assms by (simp add: tick_testfr_def sendTCP_def testfr_bytes Let_def)

text \<open>
  C6, as the code has it. t3 is set to its timeout whenever a data frame is received and
  passes the sequence check, whether TxOk is set or not. A frame of six bytes, the
  S-format among them, leaves t3 as it is. When t3 stands at 1 on a tick while connected
  with TxOk, it reaches zero and the last thing the tick hands to the transport is
  exactly the TESTFR-act frame \<^verbatim>\<open>68 04 43 00 00 00\<close>.
\<close>

theorem C6_test_frame_timer:
  "(apdu_start p1 = START \<and> sz1 \<noteq> 6
      \<and> (VR_NEW p1 = VR st1 \<or> VR_NEW p1 = 2 \<or> \<not> seq_order_check st1)
      \<longrightarrow> tout_testfr (parseAPDU k now p1 sz1 True st1) = t3_testfr k)
   \<and> tout_testfr (parseAPDU k now p2 6 True st2) = tout_testfr st2
   \<and> (connectedTCP st3 \<and> TxOk st3 \<and> tout_testfr st3 = 1
      \<longrightarrow> trace (onTimerSecond k st3)
            = trace (tick_supervisory (tick_gi k (tick_startdtact k st3)))
              @ [SendTCP [0x68, 0x04, 0x43, 0x00, 0x00, 0x00]]
          \<and> tout_testfr (onTimerSecond k st3) = 0)"
proof (intro conjI impI)
  assume a: "apdu_start p1 = START \<and> sz1 \<noteq> 6
      \<and> (VR_NEW p1 = VR st1 \<or> VR_NEW p1 = 2 \<or> \<not> seq_order_check st1)"
  then have "parseAPDU k now p1 sz1 True st1
      = account_ack k (dispatch_asdu now p1 (st1\<lparr>VR := VR_NEW p1 + 2\<rparr>))"
    by (intro parseAPDU_accept) simp_all
  then show "tout_testfr (parseAPDU k now p1 sz1 True st1) = t3_testfr k"
    by (simp add: tout_testfr_account_ack)
next
  show "tout_testfr (parseAPDU k now p2 6 True st2) = tout_testfr st2"
    by (rule tout_testfr_control)
next
  assume a: "connectedTCP st3 \<and> TxOk st3 \<and> tout_testfr st3 = 1"
  let ?s = "tick_supervisory (tick_gi k (tick_startdtact k st3))"
  have s: "connectedTCP ?s" "TxOk ?s" "tout_testfr ?s = 1"
    using a by (simp_all add: tick_supervisory_keeps tick_gi_keeps tick_startdtact_keeps)
  have eq: "onTimerSecond k st3 = tick_testfr ?s"
    using a by (simp add: onTimerSecond_def)
  show "trace (onTimerSecond k st3) = trace ?s @ [SendTCP [0x68, 0x04, 0x43, 0x00, 0x00, 0x00]]"
    by (simp add: eq tick_testfr_expiry [OF s] emit_def)
  show "tout_testfr (onTimerSecond k st3) = 0"
    by (simp add: eq tick_testfr_expiry [OF s] emit_def)
qed

text \<open>
  At concrete inputs: the data frame numbered 1 arms t3 at 20 in the example session;
  an S-format frame leaves it at 16 four ticks later; and fifteen ticks after that t3
  stands at 1 and the tick ends with the TESTFR-act frame.
\<close>

theorem C6_test_frame_timer_witness:
  "tout_testfr (parseAPDU example_timeouts example_clock (data_frame 2 M_SP_NA_1 1 3) 16 True
       example_session_later) = 20
   \<and> tout_testfr (parseAPDU example_timeouts example_clock s_frame_in 6 True
       example_session_later) = 16
   \<and> trace (onTimerSecond example_timeouts example_session_quiet)
     = trace (tick_supervisory (tick_gi example_timeouts
                (tick_startdtact example_timeouts example_session_quiet)))
       @ [SendTCP [0x68, 0x04, 0x43, 0x00, 0x00, 0x00]]
   \<and> tout_testfr (onTimerSecond example_timeouts example_session_quiet) = 0"
proof -
  have h1: "apdu_start (data_frame 2 M_SP_NA_1 1 3) = START \<and> (16 :: int) \<noteq> 6
      \<and> (VR_NEW (data_frame 2 M_SP_NA_1 1 3) = VR example_session_later
          \<or> VR_NEW (data_frame 2 M_SP_NA_1 1 3) = 2
          \<or> \<not> seq_order_check example_session_later)"
    by (simp add: data_frame_def VR_NEW_def example_session_later_eq)
  have h3: "connectedTCP example_session_quiet \<and> TxOk example_session_quiet
      \<and> tout_testfr example_session_quiet = 1"
    by (simp add: example_session_quiet_eq)
  note t = C6_test_frame_timer [of "data_frame 2 M_SP_NA_1 1 3" 16 example_session_later
      example_timeouts example_clock s_frame_in example_session_later example_session_quiet]
  note c1 = mp [OF t [THEN conjunct1] h1]
  note c2 = t [THEN conjunct2, THEN conjunct1]
  note c3 = mp [OF t [THEN conjunct2, THEN conjunct2] h3]
  have v: "t3_testfr example_timeouts = 20" "tout_testfr example_session_later = 16"
    by (simp_all add: example_timeouts_def example_session_later_eq)
  show ?thesis
    using c1 c2 c3 by (simp only: v simp_thms)
qed

text \<open>
  The claim as written fails for the S-format: in the session right after STARTDT-con,
  with TxOk set and t3 idle, a received S-format frame leaves t3 idle.
\<close>

theorem C6_counterexample:
  "TxOk (receive example_timeouts example_clock startdt_con
           (onConnectTCP example_timeouts iec104_class))
   \<and> tout_testfr (receive example_timeouts example_clock startdt_con
           (onConnectTCP example_timeouts iec104_class)) = - 1
   \<and> NS s_frame_in = SUPERVISORY
   \<and> tout_testfr (receive example_timeouts example_clock s_frame_in
         (receive example_timeouts example_clock startdt_con
           (onConnectTCP example_timeouts iec104_class))) = - 1"
  by (simp add: s_frame_in_def engine_defs)

subsection \<open>ASDUs without a decoder\<close>

lemma dispatch_undecoded:
  "\<not> has_decoder (asdu_type (asduh p)) \<Longrightarrow> dispatch_asdu now p st = st"
  by (simp add: has_decoder_def dispatch_asdu_def Let_def)

lemma dispatch_end_of_init:
  "asdu_type (asduh p) = M_EI_NA_1 \<Longrightarrow> dispatch_asdu now p st = st"
  by (simp add: dispatch_asdu_def monitoring_types_def response_types_def Let_def)

lemma account_ack_supervisory:
  assumes "msg_supervisory st"
  shows "account_ack k st
         = (let t = (if tout_supervisory st < 0 then t2_supervisory k else tout_supervisory st);
                t' = (if 0 < t then t - 1 else t)
            in if t' = 0
               then emit (SendTCP (s_frame (VR st)))
                      (st\<lparr>tout_testfr := t3_testfr k, tout_supervisory := - 1\<rparr>)
               else st\<lparr>tout_testfr := t3_testfr k, tout_supervisory := t'\<rparr>)"
  using assms by (simp add: account_ack_def sendSupervisory_eq Let_def emit_def)

lemma account_ack_immediate:
  assumes "\<not> msg_supervisory st"
  shows "account_ack k st = emit (SendTCP (s_frame (VR st))) (st\<lparr>tout_testfr := t3_testfr k\<rparr>)"
  using assms by (simp add: account_ack_def sendSupervisory_eq Let_def emit_def)

lemma upcalls_account_ack: "upcalls (trace (account_ack k st)) = upcalls (trace st)"
  by (simp add: account_ack_def sendSupervisory_eq emit_def upcalls_def Let_def)

lemma GIObjectCnt_account_ack: "GIObjectCnt (account_ack k st) = GIObjectCnt st"
  by (simp add: account_ack_def sendSupervisory_eq emit_def Let_def)

text \<open>
  C10. A data frame that passes the sequence check and whose type identifier falls into
  the \<^verbatim>\<open>default\<close> branch is accounted for like any other: the engine ends in the state
  the accounting alone produces, the same state a frame with the decoded type 70 (which
  is only logged) leaves. VR is the send number of the frame plus one, t3 is set to its
  timeout, and no indication is given. With supervisory messaging enabled t2 is armed if
  it was idle and decremented once, and the S-format frame goes out when it reaches
  zero; with supervisory messaging disabled the S-format frame with the new VR goes out
  at once.
\<close>

theorem C10_undecoded_type:
  "apdu_start p = START \<and> sz \<noteq> 6 \<and> \<not> has_decoder (asdu_type (asduh p))
     \<and> (VR_NEW p = VR st \<or> VR_NEW p = 2 \<or> \<not> seq_order_check st) \<Longrightarrow>
   (let st' = parseAPDU k now p sz True st
    in st' = account_ack k (st\<lparr>VR := VR_NEW p + 2\<rparr>)
       \<and> st' = parseAPDU k now (p\<lparr>asduh := (asduh p)\<lparr>asdu_type := M_EI_NA_1\<rparr>\<rparr>) sz True st
       \<and> VR st' = VR_NEW p + 2
       \<and> tout_testfr st' = t3_testfr k
       \<and> upcalls (trace st') = upcalls (trace st)
       \<and> (if msg_supervisory st
          then (let t = (if tout_supervisory st < 0 then t2_supervisory k
                         else tout_supervisory st);
                    t' = (if 0 < t then t - 1 else t)
                in tout_supervisory st' = (if t' = 0 then - 1 else t')
                   \<and> trace st' = trace st
                       @ (if t' = 0 then [SendTCP (s_frame (VR_NEW p + 2))] else []))
          else trace st' = trace st @ [SendTCP (s_frame (VR_NEW p + 2))]))"
proof -
  assume a: "apdu_start p = START \<and> sz \<noteq> 6 \<and> \<not> has_decoder (asdu_type (asduh p))
     \<and> (VR_NEW p = VR st \<or> VR_NEW p = 2 \<or> \<not> seq_order_check st)"
  let ?q = "p\<lparr>asduh := (asduh p)\<lparr>asdu_type := M_EI_NA_1\<rparr>\<rparr>"
  let ?s = "st\<lparr>VR := VR_NEW p + 2\<rparr>"
  have "parseAPDU k now p sz True st = account_ack k (dispatch_asdu now p ?s)"
    using a by (intro parseAPDU_accept) simp_all
  then have eq: "parseAPDU k now p sz True st = account_ack k ?s"
    using a by (simp add: dispatch_undecoded)
  have q: "apdu_start ?q = START" "VR_NEW ?q = VR_NEW p"
    using a by (simp_all add: VR_NEW_def)
  have "parseAPDU k now ?q sz True st
      = account_ack k (dispatch_asdu now ?q (st\<lparr>VR := VR_NEW ?q + 2\<rparr>))"
    using a q by (intro parseAPDU_accept) simp_all
  then have eq70: "parseAPDU k now ?q sz True st = account_ack k ?s"
    by (simp add: q(2) dispatch_end_of_init)
  have sup: "if msg_supervisory st
          then (let t = (if tout_supervisory st < 0 then t2_supervisory k
                         else tout_supervisory st);
                    t' = (if 0 < t then t - 1 else t)
                in tout_supervisory (account_ack k ?s) = (if t' = 0 then - 1 else t')
                   \<and> trace (account_ack k ?s) = trace st
                       @ (if t' = 0 then [SendTCP (s_frame (VR_NEW p + 2))] else []))
          else trace (account_ack k ?s) = trace st @ [SendTCP (s_frame (VR_NEW p + 2))]"
  proof (cases "msg_supervisory st")
    case True
    then have "msg_supervisory ?s" by simp
    from account_ack_supervisory [OF this, of k] True show ?thesis
      by (simp add: Let_def emit_def)
  next
    case False
    then have "\<not> msg_supervisory ?s" by simp
    from account_ack_immediate [OF this, of k] False show ?thesis
      by (simp add: emit_def)
  qed
  have vr: "VR (account_ack k ?s) = VR_NEW p + 2"
    by (simp add: VR_account_ack)
  have t3: "tout_testfr (account_ack k ?s) = t3_testfr k"
    by (rule tout_testfr_account_ack)
  have up: "upcalls (trace (account_ack k ?s)) = upcalls (trace st)"
    by (simp add: upcalls_account_ack)
  show ?thesis
    unfolding Let_def eq eq70
    by (intro conjI refl vr t3 up sup [unfolded Let_def])
qed

text \<open>
  In the example session a frame of type 2, which has no decoder, with send number 1:
  VR moves to 2 (4 in the shifted form), t3 is at 20, t2 goes from 9 to 8 and the
  indications stay as they were; with supervisory messaging disabled the acknowledgement
  goes out at once.
\<close>

theorem C10_undecoded_type_witness:
  "VR (parseAPDU example_timeouts example_clock (data_frame 2 2 1 3) 16 True example_session) = 4
   \<and> tout_testfr (parseAPDU example_timeouts example_clock (data_frame 2 2 1 3) 16 True
        example_session) = 20
   \<and> tout_supervisory (parseAPDU example_timeouts example_clock (data_frame 2 2 1 3) 16 True
        example_session) = 8
   \<and> trace (parseAPDU example_timeouts example_clock (data_frame 2 2 1 3) 16 True
        example_session) = [SendTCP [0x68, 4, 7, 0, 0, 0], DataIndication 1 1]
   \<and> trace (parseAPDU example_timeouts example_clock (data_frame 2 2 1 3) 16 True
        (example_session\<lparr>msg_supervisory := False\<rparr>))
      = [SendTCP [0x68, 4, 7, 0, 0, 0], DataIndication 1 1, SendTCP [0x68, 4, 1, 0, 4, 0]]"
proof -
  have h1: "apdu_start (data_frame 2 2 1 3) = START \<and> (16 :: int) \<noteq> 6
      \<and> \<not> has_decoder (asdu_type (asduh (data_frame 2 2 1 3)))
      \<and> (VR_NEW (data_frame 2 2 1 3) = VR example_session
          \<or> VR_NEW (data_frame 2 2 1 3) = 2 \<or> \<not> seq_order_check example_session)"
    by (simp add: data_frame_def VR_NEW_def example_session_eq has_decoder_def
        monitoring_types_def response_types_def logged_types_def)
  have h2: "apdu_start (data_frame 2 2 1 3) = START \<and> (16 :: int) \<noteq> 6
      \<and> \<not> has_decoder (asdu_type (asduh (data_frame 2 2 1 3)))
      \<and> (VR_NEW (data_frame 2 2 1 3) = VR (example_session\<lparr>msg_supervisory := False\<rparr>)
          \<or> VR_NEW (data_frame 2 2 1 3) = 2
          \<or> \<not> seq_order_check (example_session\<lparr>msg_supervisory := False\<rparr>))"
    by (simp add: data_frame_def VR_NEW_def example_session_eq has_decoder_def
        monitoring_types_def response_types_def logged_types_def)
  have v: "VR_NEW (data_frame 2 2 1 3) + 2 = 4" "t3_testfr example_timeouts = 20"
    "tout_supervisory example_session = 9" "msg_supervisory example_session"
    "trace example_session = [SendTCP [0x68, 4, 7, 0, 0, 0], DataIndication 1 1]"
    "s_frame 4 = [0x68, 4, 1, 0, 4, 0]"
    by (simp_all add: data_frame_def VR_NEW_def example_timeouts_def example_session_eq
        s_frame_def lo8_def hi8_def)
  note t1 = C10_undecoded_type [OF h1, of example_timeouts example_clock, unfolded Let_def]
  note t2 = C10_undecoded_type [OF h2, of example_timeouts example_clock, unfolded Let_def]
  have c1: "VR (parseAPDU example_timeouts example_clock (data_frame 2 2 1 3) 16 True
        example_session) = 4"
    using t1 [THEN conjunct2, THEN conjunct2, THEN conjunct1] by (simp only: v)
  have c2: "tout_testfr (parseAPDU example_timeouts example_clock (data_frame 2 2 1 3) 16 True
        example_session) = 20"
    using t1 [THEN conjunct2, THEN conjunct2, THEN conjunct2, THEN conjunct1] by (simp only: v)
  have c34: "tout_supervisory (parseAPDU example_timeouts example_clock (data_frame 2 2 1 3) 16
        True example_session) = 8
      \<and> trace (parseAPDU example_timeouts example_clock (data_frame 2 2 1 3) 16 True
        example_session) = [SendTCP [0x68, 4, 7, 0, 0, 0], DataIndication 1 1]"
    using t1 [THEN conjunct2, THEN conjunct2, THEN conjunct2, THEN conjunct2, THEN conjunct2]
    by (simp add: v)
  have c5: "trace (parseAPDU example_timeouts example_clock (data_frame 2 2 1 3) 16 True
        (example_session\<lparr>msg_supervisory := False\<rparr>))
      = [SendTCP [0x68, 4, 7, 0, 0, 0], DataIndication 1 1, SendTCP [0x68, 4, 1, 0, 4, 0]]"
    using t2 [THEN conjunct2, THEN conjunct2, THEN conjunct2, THEN conjunct2, THEN conjunct2]
    by (simp add: v)
  show ?thesis
    using c1 c2 c34 c5 by (intro conjI) simp_all
qed

subsection \<open>General interrogation\<close>

lemma upcalls_Nil: "upcalls [] = []"
  by (simp add: upcalls_def)

lemma upcalls_Cons: "upcalls (e # es) = (if is_upcall e then e # upcalls es else upcalls es)"
  by (simp add: upcalls_def)

lemma dispatch_monitoring:
  assumes "asdu_type (asduh p) \<in> set monitoring_types"
  shows "dispatch_asdu now p st
         = emit (data_indication_of p) (st\<lparr>GIObjectCnt := GIObjectCnt st + gi_objects_of p\<rparr>)"
  using assms
  by (simp add: dispatch_asdu_def data_indication_of_def gi_objects_of_def Let_def)

lemma dispatch_act_con:
  assumes "asdu_type (asduh p) = INTERROGATION" "asdu_cause (asduh p) = ACTCONFIRM"
  shows "dispatch_asdu now p st
         = emit InterrogationActConfIndication (st\<lparr>tout_gi := gi_period st, GIObjectCnt := 0\<rparr>)"
  using assms
  by (simp add: dispatch_asdu_def monitoring_types_def response_types_def Let_def)

lemma dispatch_act_term:
  assumes "asdu_type (asduh p) = INTERROGATION" "asdu_cause (asduh p) = ACTTERM"
  shows "dispatch_asdu now p st
         = emit (InterrogationActTermIndication (GIObjectCnt st)) (st\<lparr>tout_gi := gi_period st\<rparr>)"
  using assms
  by (simp add: dispatch_asdu_def monitoring_types_def response_types_def Let_def)

lemma receive_monitoring:
  assumes "apdu_start p = START" "apdu_length p \<noteq> 4" "VR_NEW p = VR st \<or> VR_NEW p = 2"
    and "asdu_type (asduh p) \<in> set monitoring_types"
  shows "VR (receive k now p st) = VR_NEW p + 2"
    and "GIObjectCnt (receive k now p st) = GIObjectCnt st + gi_objects_of p"
    and "upcalls (trace (receive k now p st)) = upcalls (trace st) @ [data_indication_of p]"
proof -
  have eq: "receive k now p st
      = account_ack k (dispatch_asdu now p (st\<lparr>VR := VR_NEW p + 2\<rparr>))"
    using assms(1,2,3) by (intro receive_accept) auto
  show "VR (receive k now p st) = VR_NEW p + 2"
    by (simp add: eq VR_account_ack VR_dispatch)
  show "GIObjectCnt (receive k now p st) = GIObjectCnt st + gi_objects_of p"
    by (simp add: eq GIObjectCnt_account_ack dispatch_monitoring [OF assms(4)] emit_def)
  show "upcalls (trace (receive k now p st)) = upcalls (trace st) @ [data_indication_of p]"
    by (simp add: eq upcalls_account_ack dispatch_monitoring [OF assms(4)] emit_def
        upcalls_append upcalls_Cons upcalls_Nil data_indication_of_def)
qed

lemma receive_all_monitoring:
  assumes "in_sequence (VR st) (ms @ rest)"
    and "list_all (\<lambda>p. asdu_type (asduh p) \<in> set monitoring_types) ms"
  shows "GIObjectCnt (receive_all k now ms st) = GIObjectCnt st + gi_objects ms
         \<and> upcalls (trace (receive_all k now ms st))
           = upcalls (trace st) @ map data_indication_of ms
         \<and> in_sequence (VR (receive_all k now ms st)) rest"
  using assms
proof (induction ms arbitrary: st)
  case Nil
  then show ?case by (simp add: gi_objects_def)
next
  case (Cons p ms)
  from Cons.prems(1) have p: "apdu_start p = START" "apdu_length p \<noteq> 4"
    "VR_NEW p = VR st \<or> VR_NEW p = 2"
    and seq: "in_sequence (VR_NEW p + 2) (ms @ rest)"
    by simp_all
  from Cons.prems(2) have mon: "asdu_type (asduh p) \<in> set monitoring_types"
    and rest: "list_all (\<lambda>p. asdu_type (asduh p) \<in> set monitoring_types) ms"
    by simp_all
  let ?st = "receive k now p st"
  note r = receive_monitoring [OF p mon, of k now]
  have seq': "in_sequence (VR ?st) (ms @ rest)"
    using seq by (simp add: r(1))
  from Cons.IH [OF seq' rest] show ?case
    by (simp add: r(2) r(3) gi_objects_def)
qed

text \<open>
  C4. A stream that passes the sequence check and consists of a type 100 ASDU with cause
  ACT-CON, monitoring ASDUs (the types the engine decodes) and a type 100 ASDU with
  cause ACT-TERM: the first resets \<^verbatim>\<open>GIObjectCnt\<close> to zero and gives the confirmation
  indication; the monitoring ASDUs give one data indication each and add up, in
  \<^verbatim>\<open>GIObjectCnt\<close>, the object counts of those whose cause lies in 20 to 36; the last
  gives the termination indication while \<^verbatim>\<open>GIObjectCnt\<close> holds that total.
\<close>

theorem C4_interrogation_accounting:
  "asdu_type (asduh con) = INTERROGATION \<and> asdu_cause (asduh con) = ACTCONFIRM
     \<and> list_all (\<lambda>p. asdu_type (asduh p) \<in> set monitoring_types) ms
     \<and> asdu_type (asduh fin) = INTERROGATION \<and> asdu_cause (asduh fin) = ACTTERM
     \<and> in_sequence (VR st) (con # ms @ [fin]) \<Longrightarrow>
   (let st1 = receive k now con st;
        st2 = receive_all k now ms st1;
        st3 = receive k now fin st2
    in st3 = receive_all k now (con # ms @ [fin]) st
       \<and> GIObjectCnt st1 = 0
       \<and> upcalls (trace st1) = upcalls (trace st) @ [InterrogationActConfIndication]
       \<and> GIObjectCnt st2 = gi_objects ms
       \<and> upcalls (trace st2) = upcalls (trace st1) @ map data_indication_of ms
       \<and> upcalls (trace st3)
           = upcalls (trace st2) @ [InterrogationActTermIndication (gi_objects ms)]
       \<and> GIObjectCnt st3 = gi_objects ms)"
proof -
  assume a: "asdu_type (asduh con) = INTERROGATION \<and> asdu_cause (asduh con) = ACTCONFIRM
     \<and> list_all (\<lambda>p. asdu_type (asduh p) \<in> set monitoring_types) ms
     \<and> asdu_type (asduh fin) = INTERROGATION \<and> asdu_cause (asduh fin) = ACTTERM
     \<and> in_sequence (VR st) (con # ms @ [fin])"
  let ?st1 = "receive k now con st"
  let ?st2 = "receive_all k now ms ?st1"
  let ?st3 = "receive k now fin ?st2"
  from a have con: "apdu_start con = START" "apdu_length con \<noteq> 4"
    "VR_NEW con = VR st \<or> VR_NEW con = 2"
    and seq: "in_sequence (VR_NEW con + 2) (ms @ [fin])"
    by simp_all
  have eq1: "?st1 = account_ack k (dispatch_asdu now con (st\<lparr>VR := VR_NEW con + 2\<rparr>))"
    using con by (intro receive_accept) auto
  have d1: "dispatch_asdu now con (st\<lparr>VR := VR_NEW con + 2\<rparr>)
      = emit InterrogationActConfIndication
          (st\<lparr>VR := VR_NEW con + 2, tout_gi := gi_period st, GIObjectCnt := 0\<rparr>)"
    using a by (simp add: dispatch_act_con)
  have vr1: "VR ?st1 = VR_NEW con + 2"
    by (simp add: eq1 VR_account_ack VR_dispatch)
  have gi1: "GIObjectCnt ?st1 = 0"
    by (simp add: eq1 GIObjectCnt_account_ack d1 emit_def)
  have up1: "upcalls (trace ?st1) = upcalls (trace st) @ [InterrogationActConfIndication]"
    by (simp add: eq1 upcalls_account_ack d1 emit_def upcalls_append upcalls_Cons upcalls_Nil)
  have seq1: "in_sequence (VR ?st1) (ms @ [fin])"
    using seq by (simp add: vr1)
  from a have mon: "list_all (\<lambda>p. asdu_type (asduh p) \<in> set monitoring_types) ms"
    by simp
  from receive_all_monitoring [OF seq1 mon, of k now]
  have gi2: "GIObjectCnt ?st2 = gi_objects ms"
    and up2: "upcalls (trace ?st2) = upcalls (trace ?st1) @ map data_indication_of ms"
    and seq2: "in_sequence (VR ?st2) [fin]"
    by (simp_all add: gi1)
  from seq2 have fin: "apdu_start fin = START" "apdu_length fin \<noteq> 4"
    "VR_NEW fin = VR ?st2 \<or> VR_NEW fin = 2"
    by simp_all
  have eq3: "?st3 = account_ack k (dispatch_asdu now fin (?st2\<lparr>VR := VR_NEW fin + 2\<rparr>))"
    using fin by (intro receive_accept) auto
  have d3: "dispatch_asdu now fin (?st2\<lparr>VR := VR_NEW fin + 2\<rparr>)
      = emit (InterrogationActTermIndication (gi_objects ms))
          (?st2\<lparr>VR := VR_NEW fin + 2, tout_gi := gi_period ?st2\<rparr>)"
    using a by (simp add: dispatch_act_term gi2)
  have up3: "upcalls (trace ?st3)
      = upcalls (trace ?st2) @ [InterrogationActTermIndication (gi_objects ms)]"
    by (simp add: eq3 upcalls_account_ack d3 emit_def upcalls_append upcalls_Cons upcalls_Nil)
  have gi3: "GIObjectCnt ?st3 = gi_objects ms"
    by (simp add: eq3 GIObjectCnt_account_ack d3 emit_def gi2)
  have all: "?st3 = receive_all k now (con # ms @ [fin]) st"
    by (simp add: receive_all_append)
  show ?thesis
    unfolding Let_def by (intro conjI all gi1 up1 gi2 up2 up3 gi3)
qed

text \<open>
  In the example session, an interrogation confirmed, answered by three single points
  and two floats with cause 20, interleaved with one spontaneous single point, and
  terminated: the termination indication comes with a count of 5.
\<close>

theorem C4_interrogation_accounting_witness:
  "upcalls (trace (receive_all example_timeouts example_clock
       [data_frame 2 INTERROGATION 1 ACTCONFIRM,
        data_frame 4 M_SP_NA_1 3 20, data_frame 6 M_ME_NC_1 2 20, data_frame 8 M_SP_NA_1 1 3,
        data_frame 10 INTERROGATION 1 ACTTERM]
       example_session))
     = [DataIndication 1 1, InterrogationActConfIndication,
        DataIndication 1 3, DataIndication 13 2, DataIndication 1 1,
        InterrogationActTermIndication 5]
   \<and> GIObjectCnt (receive_all example_timeouts example_clock
       [data_frame 2 INTERROGATION 1 ACTCONFIRM,
        data_frame 4 M_SP_NA_1 3 20, data_frame 6 M_ME_NC_1 2 20, data_frame 8 M_SP_NA_1 1 3,
        data_frame 10 INTERROGATION 1 ACTTERM]
       example_session) = 5"
proof -
  let ?con = "data_frame 2 INTERROGATION 1 ACTCONFIRM"
  let ?ms = "[data_frame 4 M_SP_NA_1 3 20, data_frame 6 M_ME_NC_1 2 20,
              data_frame 8 M_SP_NA_1 1 3]"
  let ?fin = "data_frame 10 INTERROGATION 1 ACTTERM"
  let ?st1 = "receive example_timeouts example_clock ?con example_session"
  let ?st2 = "receive_all example_timeouts example_clock ?ms ?st1"
  let ?st3 = "receive example_timeouts example_clock ?fin ?st2"
  have h: "asdu_type (asduh ?con) = INTERROGATION \<and> asdu_cause (asduh ?con) = ACTCONFIRM
     \<and> list_all (\<lambda>p. asdu_type (asduh p) \<in> set monitoring_types) ?ms
     \<and> asdu_type (asduh ?fin) = INTERROGATION \<and> asdu_cause (asduh ?fin) = ACTTERM
     \<and> in_sequence (VR example_session) (?con # ?ms @ [?fin])"
    by (simp add: data_frame_def monitoring_types_def VR_NEW_def example_session_eq)
  note t = C4_interrogation_accounting [OF h, of example_timeouts example_clock,
      unfolded Let_def]
  have all: "receive_all example_timeouts example_clock (?con # ?ms @ [?fin]) example_session
      = ?st3"
    using t [THEN conjunct1] by (rule sym)
  have up1: "upcalls (trace ?st1)
      = upcalls (trace example_session) @ [InterrogationActConfIndication]"
    by (rule t [THEN conjunct2, THEN conjunct2, THEN conjunct1])
  have up2: "upcalls (trace ?st2) = upcalls (trace ?st1) @ map data_indication_of ?ms"
    by (rule t [THEN conjunct2, THEN conjunct2, THEN conjunct2, THEN conjunct2, THEN conjunct1])
  have up3: "upcalls (trace ?st3)
      = upcalls (trace ?st2) @ [InterrogationActTermIndication (gi_objects ?ms)]"
    by (rule t [THEN conjunct2, THEN conjunct2, THEN conjunct2, THEN conjunct2,
          THEN conjunct2, THEN conjunct1])
  have gi3: "GIObjectCnt ?st3 = gi_objects ?ms"
    by (rule t [THEN conjunct2, THEN conjunct2, THEN conjunct2, THEN conjunct2,
          THEN conjunct2, THEN conjunct2])
  have n: "gi_objects ?ms = 5"
    by (simp add: gi_objects_def gi_objects_of_def data_frame_def)
  have m: "map data_indication_of ?ms
      = [DataIndication 1 3, DataIndication 13 2, DataIndication 1 1]"
    by (simp add: data_indication_of_def data_frame_def)
  have u: "upcalls (trace example_session) = [DataIndication 1 1]"
    by (simp add: example_session_eq upcalls_Cons upcalls_Nil)
  have "upcalls (trace ?st3)
      = [DataIndication 1 1, InterrogationActConfIndication,
         DataIndication 1 3, DataIndication 13 2, DataIndication 1 1,
         InterrogationActTermIndication 5]"
    by (simp only: up3 up2 up1 u n m append.simps)
  moreover have "GIObjectCnt ?st3 = 5"
    by (simp only: gi3 n)
  ultimately show ?thesis
    using all by simp
qed

end
